theory Spec2Isabelle
  imports Complex_Main "HOL-Library.Multiset"
begin

section \<open>Documents and the document store\<close>

text \<open>
  The server keeps three MongoDB collections (\<open>user\<close>, \<open>requests\<close>, \<open>payment\<close>) and
  answers HTTP requests. The sources hold three snapshots of the one server file: the
  unnamed part (suffix \<open>_p0\<close> below), and the two documents of \<open>index.js\<close> (lines 1-335,
  suffix \<open>_ix1\<close>; lines 336-704, suffix \<open>_ix2\<close>). A route handler is an anonymous
  function in the source; here it is named after its method and path.

  A document is a finite map from field names to values. Values are the scalars a JSON
  body and the handlers can produce; nested objects and arrays are not modelled. A number
  is an exact rational (the source's doubles, without rounding), a date is a count of
  milliseconds, an ObjectId is a natural number.
\<close>

type_synonym objectid = nat

datatype jval = JNull | JBool bool | JNum rat | JStr string | JDate nat | JId objectid

type_synonym doc = "string \<Rightarrow> jval option"

text \<open>An object literal or a parsed JSON body: its fields in order, keys distinct.\<close>

type_synonym fields = "(string \<times> jval) list"

type_synonym collection = "doc list"

text \<open>
  Reading a field: a missing field reads as \<open>undefined\<close>, which the driver stores and
  compares as \<open>null\<close>.
\<close>

definition fld :: "doc \<Rightarrow> string \<Rightarrow> jval" where
  "fld d k = (case d k of None \<Rightarrow> JNull | Some v \<Rightarrow> v)"

definition get :: "fields \<Rightarrow> string \<Rightarrow> jval" where
  "get b k = fld (map_of b) k"

text \<open>
  A filter \<open>{k1: v1, k2: v2}\<close> is a conjunction of equalities; the filter value \<open>null\<close>
  matches a missing field as well as a stored \<open>null\<close>. A collection is the list of its
  documents in stored order, which is the order a cursor without a sort returns them in.
\<close>

definition matches :: "fields \<Rightarrow> doc \<Rightarrow> bool" where
  "matches q d = list_all (\<lambda>(k, v). fld d k = v) q"

definition findOne :: "fields \<Rightarrow> collection \<Rightarrow> doc option" where
  "findOne q c = List.find (matches q) c"

definition find_docs :: "fields \<Rightarrow> collection \<Rightarrow> collection" where
  "find_docs q c = filter (matches q) c"

definition countDocuments :: "fields \<Rightarrow> collection \<Rightarrow> nat" where
  "countDocuments q c = length (filter (matches q) c)"

text \<open>\<open>{$set: u}\<close> on one document, and whether it changes the document.\<close>

definition set_fields :: "fields \<Rightarrow> doc \<Rightarrow> doc" where
  "set_fields u d = d ++ map_of u"

definition modifies :: "fields \<Rightarrow> doc \<Rightarrow> bool" where
  "modifies u d = list_ex (\<lambda>(k, v). d k \<noteq> Some v) u"

text \<open>
  \<open>updateOne(filter, {$set: u})\<close>: the first matching document is updated; the result is
  (\<open>matchedCount\<close>, \<open>modifiedCount\<close>) and the collection afterwards.
\<close>

fun updateOne :: "fields \<Rightarrow> fields \<Rightarrow> collection \<Rightarrow> (nat \<times> nat) \<times> collection" where
  "updateOne q u [] = ((0, 0), [])"
| "updateOne q u (d # c) =
     (if matches q d then ((1, if modifies u d then 1 else 0), set_fields u d # c)
      else (case updateOne q u c of (r, c') \<Rightarrow> (r, d # c')))"

text \<open>\<open>deleteOne(filter)\<close>: \<open>deletedCount\<close> and the collection afterwards.\<close>

fun deleteOne :: "fields \<Rightarrow> collection \<Rightarrow> nat \<times> collection" where
  "deleteOne q [] = (0, [])"
| "deleteOne q (d # c) =
     (if matches q d then (1, c)
      else (case deleteOne q c of (n, c') \<Rightarrow> (n, d # c')))"

text \<open>
  \<open>insertOne(d)\<close>: the driver gives a document without \<open>_id\<close> a fresh ObjectId; the
  server refuses an \<open>_id\<close> that is already stored. The result is the \<open>insertedId\<close> and the
  collection afterwards.
\<close>

definition oids :: "collection \<Rightarrow> objectid list" where
  "oids c = concat (map (\<lambda>d. case d ''_id'' of Some (JId i) \<Rightarrow> [i] | _ \<Rightarrow> []) c)"

definition next_id :: "collection \<Rightarrow> objectid" where
  "next_id c = Suc (fold max (oids c) 0)"

datatype failure = DuplicateKey

definition insertOne :: "doc \<Rightarrow> collection \<Rightarrow> failure + (jval \<times> collection)" where
  "insertOne d c =
     (if fld d ''_id'' = JNull
      then Inr (JId (next_id c), c @ [d(''_id'' \<mapsto> JId (next_id c))])
      else if list_ex (\<lambda>e. fld e ''_id'' = fld d ''_id'') c then Inl DuplicateKey
      else Inr (fld d ''_id'', c @ [d]))"

record store =
  users :: collection
  requests :: collection
  payments :: collection

section \<open>Requests and replies\<close>

text \<open>
  What \<open>res.status(n).send(...)\<close> sends. \<open>NoReply\<close> is a handler that sends nothing: an
  exception thrown in an \<open>async\<close> handler without \<open>try\<close>, or a path that ends without
  \<open>res.send\<close>.
\<close>

datatype payload =
    Message string
  | InsertResult jval
  | UpdateResult nat nat
  | DeleteResult nat
  | Documents collection
  | Page collection nat
  | OneDoc doc
  | Success nat
  | SuccessTrue

datatype reply = Send nat payload | NoReply

text \<open>
  The bearer credential as the external identity verifier sees it: no \<open>authorization\<close>
  header, a token \<open>verifyIdToken\<close> rejects, or a token that carries the caller's email.
\<close>

datatype credential = NoHeader | BadToken | Token string

text \<open>The payment provider's checkout session, as \<open>sessions.retrieve\<close> returns it.\<close>

record checkout =
  payment_status :: string
  amount_total :: int
  currency :: jval
  customer_email :: jval
  payment_intent :: jval

text \<open>
  An HTTP request. \<open>params_id\<close> is the outcome of \<open>new ObjectId(req.params.id)\<close>, \<open>None\<close>
  when the constructor throws (\<open>ObjectId.isValid\<close> is false). \<open>page_number\<close> and
  \<open>size_number\<close> are \<open>Number(req.query.page)\<close> and \<open>Number(req.query.size)\<close>, \<open>None\<close> for
  \<open>NaN\<close> (an absent or non-numeric parameter); only integral values are modelled.
  \<open>clock\<close> is the value of \<open>new Date()\<close> in the handler, \<open>retrieved\<close> the provider's
  answer to \<open>sessions.retrieve(req.query.session_id)\<close>, \<open>None\<close> when the call throws.
\<close>

record request =
  authorization :: credential
  params_id :: "objectid option"
  query :: "string \<Rightarrow> string option"
  page_number :: "int option"
  size_number :: "int option"
  body :: fields
  clock :: nat
  retrieved :: "checkout option"

text \<open>A query-string parameter as a filter value: a string, or \<open>undefined\<close>.\<close>

definition qval :: "request \<Rightarrow> string \<Rightarrow> jval" where
  "qval rq k = (case query rq k of None \<Rightarrow> JNull | Some v \<Rightarrow> JStr v)"

text \<open>
  \<open>String.prototype.trim\<close>. A string is the list of the bytes of its UTF-8 encoding, so
  the white space and line terminator characters that \<open>trim\<close> removes are byte sequences:
  U+0009 to U+000D and U+0020, then U+00A0, U+1680, U+2000 to U+200A, U+2028, U+2029,
  U+202F, U+205F, U+3000 and U+FEFF.
\<close>

definition white_space :: "string list" where
  "white_space =
     [[CHR 0x09], [CHR 0x0A], [CHR 0x0B], [CHR 0x0C], [CHR 0x0D], [CHR 0x20],
      [CHR 0xC2, CHR 0xA0],
      [CHR 0xE1, CHR 0x9A, CHR 0x80],
      [CHR 0xE2, CHR 0x80, CHR 0x80], [CHR 0xE2, CHR 0x80, CHR 0x81],
      [CHR 0xE2, CHR 0x80, CHR 0x82], [CHR 0xE2, CHR 0x80, CHR 0x83],
      [CHR 0xE2, CHR 0x80, CHR 0x84], [CHR 0xE2, CHR 0x80, CHR 0x85],
      [CHR 0xE2, CHR 0x80, CHR 0x86], [CHR 0xE2, CHR 0x80, CHR 0x87],
      [CHR 0xE2, CHR 0x80, CHR 0x88], [CHR 0xE2, CHR 0x80, CHR 0x89],
      [CHR 0xE2, CHR 0x80, CHR 0x8A],
      [CHR 0xE2, CHR 0x80, CHR 0xA8], [CHR 0xE2, CHR 0x80, CHR 0xA9],
      [CHR 0xE2, CHR 0x80, CHR 0xAF],
      [CHR 0xE2, CHR 0x81, CHR 0x9F],
      [CHR 0xE3, CHR 0x80, CHR 0x80],
      [CHR 0xEF, CHR 0xBB, CHR 0xBF]]"

text \<open>Removing, from the front of a string, every leading occurrence of one of the sequences.\<close>

function strip :: "string list \<Rightarrow> string \<Rightarrow> string" where
  "strip ws s =
     (case List.find (\<lambda>w. w \<noteq> [] \<and> take (length w) s = w) ws of
        None \<Rightarrow> s
      | Some w \<Rightarrow> strip ws (drop (length w) s))"
  by pat_completeness auto
termination
proof (relation "measure (\<lambda>(ws, s). length s)")
  show "wf (measure (\<lambda>(ws, s). length s))" by simp
next
  fix ws :: "string list" and s w :: string
  assume "List.find (\<lambda>w. w \<noteq> [] \<and> take (length w) s = w) ws = Some w"
  then have w: "w \<noteq> []" and t: "take (length w) s = w" by (auto simp: find_Some_iff)
  from t have "length (take (length w) s) = length w" by simp
  then have "length w \<le> length s" by simp
  with w have "length (drop (length w) s) < length s" by (cases w) auto
  then show "((ws, drop (length w) s), (ws, s)) \<in> measure (\<lambda>(ws, s). length s)" by simp
qed

declare strip.simps [simp del]

definition trim :: "string \<Rightarrow> string" where
  "trim s = rev (strip (map rev white_space) (rev (strip white_space s)))"

text \<open>\<open>Number(x) || d\<close>: \<open>NaN\<close> and \<open>0\<close> are falsy.\<close>

definition or_default :: "int option \<Rightarrow> int \<Rightarrow> int" where
  "or_default n d = (case n of None \<Rightarrow> d | Some v \<Rightarrow> if v = 0 then d else v)"

section \<open>Middleware\<close>

text \<open>
  \<open>verifyFBToken\<close> (part_000 lines 31-45, index.js lines 364-376): \<open>Inl\<close> is the reply
  that ends the request, \<open>Inr\<close> the email it stores in \<open>req.decoded_email\<close> before
  \<open>next()\<close>. The first index.js snapshot (lines 29-43) differs in the message only.
\<close>

definition verifyFBToken :: "credential \<Rightarrow> reply + string" where
  "verifyFBToken a =
     (case a of
        NoHeader \<Rightarrow> Inl (Send 401 (Message ''Unauthorized''))
      | BadToken \<Rightarrow> Inl (Send 401 (Message ''Unauthorized''))
      | Token email \<Rightarrow> Inr email)"

definition verifyFBToken_ix1 :: "credential \<Rightarrow> reply + string" where
  "verifyFBToken_ix1 a =
     (case a of
        NoHeader \<Rightarrow> Inl (Send 401 (Message ''Unauthorized access''))
      | BadToken \<Rightarrow> Inl (Send 401 (Message ''Unauthorized access''))
      | Token email \<Rightarrow> Inr email)"

text \<open>
  The role middleware of part_000 (lines 72-111). \<open>Some r\<close> is the reply that ends the
  request; \<open>None\<close> is \<open>next()\<close>.
\<close>

definition verifyAdmin :: "store \<Rightarrow> string \<Rightarrow> reply option" where
  "verifyAdmin s email =
     (case findOne [(''email'', JStr email)] (users s) of
        None \<Rightarrow> Some (Send 403 (Message ''Forbidden''))
      | Some user \<Rightarrow>
          if fld user ''role'' \<noteq> JStr ''admin'' then Some (Send 403 (Message ''Forbidden''))
          else None)"

definition verifyVolunteer :: "store \<Rightarrow> string \<Rightarrow> reply option" where
  "verifyVolunteer s email =
     (case findOne [(''email'', JStr email)] (users s) of
        None \<Rightarrow> Some (Send 403 (Message ''Volunteer only''))
      | Some user \<Rightarrow>
          if fld user ''role'' \<noteq> JStr ''volunteer'' then Some (Send 403 (Message ''Volunteer only''))
          else if fld user ''status'' = JStr ''blocked'' then Some (Send 403 (Message ''User is blocked''))
          else None)"

definition verifyDonor :: "store \<Rightarrow> string \<Rightarrow> reply option" where
  "verifyDonor s email =
     (case findOne [(''email'', JStr email)] (users s) of
        None \<Rightarrow> Some (Send 403 (Message ''Donor only''))
      | Some user \<Rightarrow>
          if fld user ''role'' \<noteq> JStr ''donor'' then Some (Send 403 (Message ''Donor only''))
          else if fld user ''status'' = JStr ''blocked'' then Some (Send 403 (Message ''User is blocked''))
          else None)"

text \<open>
  \<open>app.METHOD(path, verifyFBToken, guard, handler)\<close>: the chain stops at the first
  middleware that replies instead of calling \<open>next()\<close>.
\<close>

definition guarded ::
  "(store \<Rightarrow> string \<Rightarrow> reply option) \<Rightarrow> (store \<Rightarrow> string \<Rightarrow> request \<Rightarrow> reply \<times> store) \<Rightarrow>
   store \<Rightarrow> request \<Rightarrow> reply \<times> store" where
  "guarded guard handler s rq =
     (case verifyFBToken (authorization rq) of
        Inl r \<Rightarrow> (r, s)
      | Inr email \<Rightarrow>
          (case guard s email of
             Some r \<Rightarrow> (r, s)
           | None \<Rightarrow> handler s email rq))"

text \<open>\<open>app.METHOD(path, verifyFBToken, handler)\<close>.\<close>

definition authenticated ::
  "(store \<Rightarrow> string \<Rightarrow> request \<Rightarrow> reply \<times> store) \<Rightarrow> store \<Rightarrow> request \<Rightarrow> reply \<times> store" where
  "authenticated handler s rq =
     (case verifyFBToken (authorization rq) of
        Inl r \<Rightarrow> (r, s)
      | Inr email \<Rightarrow> handler s email rq)"

definition authenticated_ix1 ::
  "(store \<Rightarrow> string \<Rightarrow> request \<Rightarrow> reply \<times> store) \<Rightarrow> store \<Rightarrow> request \<Rightarrow> reply \<times> store" where
  "authenticated_ix1 handler s rq =
     (case verifyFBToken_ix1 (authorization rq) of
        Inl r \<Rightarrow> (r, s)
      | Inr email \<Rightarrow> handler s email rq)"

section \<open>Users\<close>

text \<open>
  \<open>POST /users\<close>. part_000 lines 116-128: the lookup by email comes first, and a hit
  replies with a message. The body object becomes the stored document.
\<close>

definition post_users_p0 :: "store \<Rightarrow> request \<Rightarrow> reply \<times> store" where
  "post_users_p0 s rq =
     (case findOne [(''email'', get (body rq) ''email'')] (users s) of
        Some exists \<Rightarrow> (Send 200 (Message ''User already exists''), s)
      | None \<Rightarrow>
          (case insertOne
                  ((map_of (body rq))
                     (''role'' \<mapsto> JStr ''donor'', ''status'' \<mapsto> JStr ''active'',
                      ''createdAt'' \<mapsto> JDate (clock rq)))
                  (users s) of
             Inl e \<Rightarrow> (NoReply, s)
           | Inr (i, us) \<Rightarrow> (Send 200 (InsertResult i), s\<lparr>users := us\<rparr>)))"

text \<open>index.js lines 72-80: no lookup, and the role is \<open>admin\<close>.\<close>

definition post_users_ix1 :: "store \<Rightarrow> request \<Rightarrow> reply \<times> store" where
  "post_users_ix1 s rq =
     (case insertOne
             ((map_of (body rq))
                (''createdAt'' \<mapsto> JDate (clock rq), ''role'' \<mapsto> JStr ''admin'',
                 ''status'' \<mapsto> JStr ''active''))
             (users s) of
        Inl e \<Rightarrow> (NoReply, s)
      | Inr (i, us) \<Rightarrow> (Send 200 (InsertResult i), s\<lparr>users := us\<rparr>))"

text \<open>index.js lines 404-415: the fields are set first, then the lookup by email.\<close>

definition post_users_ix2 :: "store \<Rightarrow> request \<Rightarrow> reply \<times> store" where
  "post_users_ix2 s rq =
     (case findOne [(''email'', get (body rq) ''email'')] (users s) of
        Some exists \<Rightarrow> (Send 200 (Message ''User already exists''), s)
      | None \<Rightarrow>
          (case insertOne
                  ((map_of (body rq))
                     (''createdAt'' \<mapsto> JDate (clock rq), ''role'' \<mapsto> JStr ''donor'',
                      ''status'' \<mapsto> JStr ''active''))
                  (users s) of
             Inl e \<Rightarrow> (NoReply, s)
           | Inr (i, us) \<Rightarrow> (Send 200 (InsertResult i), s\<lparr>users := us\<rparr>)))"

text \<open>\<open>PATCH /update/user/status\<close> and \<open>PATCH /users/make-volunteer/:id\<close> (part_000 lines 142-167).\<close>

definition patch_update_user_status_p0 :: "store \<Rightarrow> request \<Rightarrow> reply \<times> store" where
  "patch_update_user_status_p0 =
     guarded verifyAdmin (\<lambda>s email rq.
       case updateOne [(''email'', qval rq ''email'')] [(''status'', qval rq ''status'')] (users s) of
         (r, us) \<Rightarrow> (Send 200 (UpdateResult (fst r) (snd r)), s\<lparr>users := us\<rparr>))"

definition patch_users_make_volunteer_id_p0 :: "store \<Rightarrow> request \<Rightarrow> reply \<times> store" where
  "patch_users_make_volunteer_id_p0 =
     guarded verifyAdmin (\<lambda>s email rq.
       case params_id rq of
         None \<Rightarrow> (NoReply, s)
       | Some i \<Rightarrow>
           (case updateOne [(''_id'', JId i)] [(''role'', JStr ''volunteer'')] (users s) of
              (r, us) \<Rightarrow> (Send 200 (UpdateResult (fst r) (snd r)), s\<lparr>users := us\<rparr>)))"

text \<open>
  \<open>PATCH /profile\<close> (part_000 lines 181-192, index.js lines 641-654): the body without
  \<open>_id\<close> and \<open>email\<close> is the \<open>$set\<close> operand. The first index.js snapshot (lines 301-319)
  does the same after its own \<open>verifyFBToken\<close>; its \<open>catch\<close> has nothing to catch here.
  An empty \<open>$set\<close> operand is taken as the store takes it since version 5.0: it matches
  and modifies nothing.
\<close>

definition profile_update :: "store \<Rightarrow> string \<Rightarrow> request \<Rightarrow> reply \<times> store" where
  "profile_update s email rq =
     (case updateOne [(''email'', JStr email)]
             (filter (\<lambda>(k, v). k \<noteq> ''_id'' \<and> k \<noteq> ''email'') (body rq)) (users s) of
        (r, us) \<Rightarrow> (Send 200 (UpdateResult (fst r) (snd r)), s\<lparr>users := us\<rparr>))"

definition patch_profile_p0 :: "store \<Rightarrow> request \<Rightarrow> reply \<times> store" where
  "patch_profile_p0 = authenticated profile_update"

definition patch_profile_ix1 :: "store \<Rightarrow> request \<Rightarrow> reply \<times> store" where
  "patch_profile_ix1 = authenticated_ix1 profile_update"

section \<open>Donation requests\<close>

text \<open>\<open>POST /requests\<close> (part_000 lines 197-205).\<close>

definition post_requests_p0 :: "store \<Rightarrow> request \<Rightarrow> reply \<times> store" where
  "post_requests_p0 =
     guarded verifyDonor (\<lambda>s email rq.
       case insertOne
              ((map_of (body rq))
                 (''requesterEmail'' \<mapsto> JStr email, ''status'' \<mapsto> JStr ''pending'',
                  ''createdAt'' \<mapsto> JDate (clock rq)))
              (requests s) of
         Inl e \<Rightarrow> (NoReply, s)
       | Inr (i, rs) \<Rightarrow> (Send 200 (InsertResult i), s\<lparr>requests := rs\<rparr>))"

text \<open>
  \<open>.sort({createdAt: -1})\<close>. Every stored request carries a date in \<open>createdAt\<close>; a value
  of another type sorts below every date, as the store orders types. The store does not
  promise an order among equal keys; the model takes the stable one.
\<close>

definition created :: "doc \<Rightarrow> int" where
  "created d = (case fld d ''createdAt'' of JDate t \<Rightarrow> int t | _ \<Rightarrow> - 1)"

definition sort_created_desc :: "collection \<Rightarrow> collection" where
  "sort_created_desc c = sort_key (\<lambda>d. - created d) c"

text \<open>
  \<open>.skip(k).limit(n).toArray()\<close>: the cursor applies the skip before the limit whatever
  the order of the two calls; the server refuses a negative skip; a limit of \<open>0\<close> is no
  limit and a negative limit is its absolute value.
\<close>

definition limit_docs :: "int \<Rightarrow> collection \<Rightarrow> collection" where
  "limit_docs n c = (if n = 0 then c else take (nat \<bar>n\<bar>) c)"

definition skip_limit :: "int \<Rightarrow> int \<Rightarrow> collection \<Rightarrow> collection option" where
  "skip_limit k n c = (if k < 0 then None else Some (limit_docs n (drop (nat k) c)))"

text \<open>\<open>GET /my-requests\<close>, part_000 lines 210-226.\<close>

definition get_my_requests_p0 :: "store \<Rightarrow> request \<Rightarrow> reply \<times> store" where
  "get_my_requests_p0 =
     guarded verifyDonor (\<lambda>s email rq.
       let page = or_default (page_number rq) 1;
           size = or_default (size_number rq) 10;
           q = [(''requesterEmail'', JStr email)]
       in case skip_limit (size * (page - 1)) size (sort_created_desc (find_docs q (requests s))) of
            None \<Rightarrow> (NoReply, s)
          | Some rs \<Rightarrow> (Send 200 (Page rs (countDocuments q (requests s))), s))"

text \<open>index.js lines 121-137: no sort.\<close>

definition get_my_requests_ix1 :: "store \<Rightarrow> request \<Rightarrow> reply \<times> store" where
  "get_my_requests_ix1 =
     authenticated_ix1 (\<lambda>s email rq.
       let size = or_default (size_number rq) 10;
           page = or_default (page_number rq) 1;
           q = [(''requesterEmail'', JStr email)]
       in case skip_limit (size * (page - 1)) size (find_docs q (requests s)) of
            None \<Rightarrow> (NoReply, s)
          | Some rs \<Rightarrow> (Send 200 (Page rs (countDocuments q (requests s))), s))"

text \<open>index.js lines 454-470: the email is trimmed and the default size is 3.\<close>

definition get_my_requests_ix2 :: "store \<Rightarrow> request \<Rightarrow> reply \<times> store" where
  "get_my_requests_ix2 =
     authenticated (\<lambda>s email rq.
       let size = or_default (size_number rq) 3;
           page = or_default (page_number rq) 1;
           q = [(''requesterEmail'', JStr (trim email))]
       in case skip_limit (size * (page - 1)) size (sort_created_desc (find_docs q (requests s))) of
            None \<Rightarrow> (NoReply, s)
          | Some rs \<Rightarrow> (Send 200 (Page rs (countDocuments q (requests s))), s))"

text \<open>\<open>GET /admin/requests\<close>, part_000 lines 231-244: the empty filter.\<close>

definition get_admin_requests_p0 :: "store \<Rightarrow> request \<Rightarrow> reply \<times> store" where
  "get_admin_requests_p0 =
     guarded verifyAdmin (\<lambda>s email rq.
       let page = or_default (page_number rq) 1;
           size = or_default (size_number rq) 10
       in case skip_limit (size * (page - 1)) size (sort_created_desc (find_docs [] (requests s))) of
            None \<Rightarrow> (NoReply, s)
          | Some rs \<Rightarrow> (Send 200 (Page rs (countDocuments [] (requests s))), s))"

text \<open>
  \<open>GET /search-requests\<close>: \<open>if (x) query.k = x\<close> adds an equality for a parameter that is
  present and not the empty string. part_000 lines 264-274 compare all three as given;
  index.js lines 139-149 and 473-483 trim the blood group alone.
\<close>

definition optional_filter :: "string \<Rightarrow> string option \<Rightarrow> fields" where
  "optional_filter k x = (case x of None \<Rightarrow> [] | Some v \<Rightarrow> if v = [] then [] else [(k, JStr v)])"

definition optional_filter_trim :: "string \<Rightarrow> string option \<Rightarrow> fields" where
  "optional_filter_trim k x =
     (case x of None \<Rightarrow> [] | Some v \<Rightarrow> if v = [] then [] else [(k, JStr (trim v))])"

definition get_search_requests_p0 :: "store \<Rightarrow> request \<Rightarrow> reply \<times> store" where
  "get_search_requests_p0 s rq =
     (Send 200 (Documents (find_docs
        (optional_filter ''bloodGroup'' (query rq ''bloodGroup'') @
         optional_filter ''district'' (query rq ''district'') @
         optional_filter ''upazila'' (query rq ''upazila'')) (requests s))), s)"

definition get_search_requests_ix1 :: "store \<Rightarrow> request \<Rightarrow> reply \<times> store" where
  "get_search_requests_ix1 s rq =
     (Send 200 (Documents (find_docs
        (optional_filter_trim ''bloodGroup'' (query rq ''bloodGroup'') @
         optional_filter ''district'' (query rq ''district'') @
         optional_filter ''upazila'' (query rq ''upazila'')) (requests s))), s)"

subsection \<open>Claiming a request\<close>

text \<open>
  \<open>PATCH /donation-requests/:id\<close> awaits two storage calls, \<open>findOne\<close> and \<open>updateOne\<close>.
  Each handler is written as the part up to and including the check of what \<open>findOne\<close>
  returned (\<open>Some r\<close>: it replied \<open>r\<close> and returned) and the part from \<open>updateOne\<close> on.

  part_000 lines 298-322.
\<close>

definition claim_lookup_p0 :: "store \<Rightarrow> string \<Rightarrow> request \<Rightarrow> reply option" where
  "claim_lookup_p0 s email rq =
     (case params_id rq of
        None \<Rightarrow> Some NoReply
      | Some i \<Rightarrow>
          (case findOne [(''_id'', JId i)] (requests s) of
             None \<Rightarrow> Some (Send 400 (Message ''Not available''))
           | Some r \<Rightarrow>
               if fld r ''status'' \<noteq> JStr ''pending'' then Some (Send 400 (Message ''Not available''))
               else None))"

definition claim_update_p0 :: "store \<Rightarrow> string \<Rightarrow> request \<Rightarrow> reply \<times> store" where
  "claim_update_p0 s email rq =
     (case params_id rq of
        None \<Rightarrow> (NoReply, s)
      | Some i \<Rightarrow>
          (case updateOne [(''_id'', JId i)]
                  [(''status'', JStr ''inprogress''), (''donorEmail'', JStr email),
                   (''donorName'', get (body rq) ''donorName''), (''donatedAt'', JDate (clock rq))]
                  (requests s) of
             (r, rs) \<Rightarrow> (Send 200 (UpdateResult (fst r) (snd r)), s\<lparr>requests := rs\<rparr>)))"

text \<open>index.js lines 184-222: the donor's name and email are both read from the body.\<close>

definition claim_lookup_ix1 :: "store \<Rightarrow> string \<Rightarrow> request \<Rightarrow> reply option" where
  "claim_lookup_ix1 s email rq =
     (case params_id rq of
        None \<Rightarrow> Some (Send 400 (Message ''Invalid request ID''))
      | Some i \<Rightarrow>
          (case findOne [(''_id'', JId i)] (requests s) of
             None \<Rightarrow> Some (Send 404 (Message ''Request not found''))
           | Some r \<Rightarrow>
               if fld r ''status'' \<noteq> JStr ''pending''
               then Some (Send 400 (Message ''This request is already taken''))
               else None))"

definition claim_update_ix1 :: "store \<Rightarrow> string \<Rightarrow> request \<Rightarrow> reply \<times> store" where
  "claim_update_ix1 s email rq =
     (case params_id rq of
        None \<Rightarrow> (NoReply, s)
      | Some i \<Rightarrow>
          (case updateOne [(''_id'', JId i)]
                  [(''status'', JStr ''inprogress''), (''donorName'', get (body rq) ''donorName''),
                   (''donorEmail'', get (body rq) ''donorEmail''), (''donatedAt'', JDate (clock rq))]
                  (requests s) of
             (r, rs) \<Rightarrow> (Send 200 (Success (snd r)), s\<lparr>requests := rs\<rparr>)))"

text \<open>index.js lines 513-539: the donor's email is the trimmed caller identity.\<close>

definition claim_lookup_ix2 :: "store \<Rightarrow> string \<Rightarrow> request \<Rightarrow> reply option" where
  "claim_lookup_ix2 s email rq =
     (case params_id rq of
        None \<Rightarrow> Some NoReply
      | Some i \<Rightarrow>
          (case findOne [(''_id'', JId i)] (requests s) of
             None \<Rightarrow> Some (Send 404 (Message ''Not found''))
           | Some r \<Rightarrow>
               if fld r ''status'' \<noteq> JStr ''pending'' then Some (Send 400 (Message ''Already taken''))
               else None))"

definition claim_update_ix2 :: "store \<Rightarrow> string \<Rightarrow> request \<Rightarrow> reply \<times> store" where
  "claim_update_ix2 s email rq =
     (case params_id rq of
        None \<Rightarrow> (NoReply, s)
      | Some i \<Rightarrow>
          (case updateOne [(''_id'', JId i)]
                  [(''status'', JStr ''inprogress''), (''donorName'', get (body rq) ''donorName''),
                   (''donorEmail'', JStr (trim email)), (''donatedAt'', JDate (clock rq))]
                  (requests s) of
             (r, rs) \<Rightarrow> (Send 200 (Success (snd r)), s\<lparr>requests := rs\<rparr>)))"

text \<open>A handler run from its first line to its last with no other request in between.\<close>

definition claim_handler ::
  "(store \<Rightarrow> string \<Rightarrow> request \<Rightarrow> reply option) \<Rightarrow> (store \<Rightarrow> string \<Rightarrow> request \<Rightarrow> reply \<times> store) \<Rightarrow>
   store \<Rightarrow> string \<Rightarrow> request \<Rightarrow> reply \<times> store" where
  "claim_handler lookup update s email rq =
     (case lookup s email rq of Some r \<Rightarrow> (r, s) | None \<Rightarrow> update s email rq)"

definition patch_donation_requests_id_p0 :: "store \<Rightarrow> request \<Rightarrow> reply \<times> store" where
  "patch_donation_requests_id_p0 = authenticated (claim_handler claim_lookup_p0 claim_update_p0)"

definition patch_donation_requests_id_ix1 :: "store \<Rightarrow> request \<Rightarrow> reply \<times> store" where
  "patch_donation_requests_id_ix1 = authenticated_ix1 (claim_handler claim_lookup_ix1 claim_update_ix1)"

definition patch_donation_requests_id_ix2 :: "store \<Rightarrow> request \<Rightarrow> reply \<times> store" where
  "patch_donation_requests_id_ix2 = authenticated (claim_handler claim_lookup_ix2 claim_update_ix2)"

text \<open>
  Requests in flight together. Node runs one handler at a time and switches at an
  \<open>await\<close>, so a handler in flight is at its start, past its check with \<open>updateOne\<close> still
  to send, or finished. A schedule names, step by step, the request that runs next.
\<close>

datatype stage = Start | Checked string | Finished reply

definition claim_step ::
  "(credential \<Rightarrow> reply + string) \<Rightarrow> (store \<Rightarrow> string \<Rightarrow> request \<Rightarrow> reply option) \<Rightarrow>
   (store \<Rightarrow> string \<Rightarrow> request \<Rightarrow> reply \<times> store) \<Rightarrow> store \<Rightarrow> request \<times> stage \<Rightarrow>
   store \<times> (request \<times> stage)" where
  "claim_step verify lookup update s t =
     (case snd t of
        Start \<Rightarrow>
          (case verify (authorization (fst t)) of
             Inl r \<Rightarrow> (s, (fst t, Finished r))
           | Inr email \<Rightarrow>
               (case lookup s email (fst t) of
                  Some r \<Rightarrow> (s, (fst t, Finished r))
                | None \<Rightarrow> (s, (fst t, Checked email))))
      | Checked email \<Rightarrow>
          (case update s email (fst t) of (r, s') \<Rightarrow> (s', (fst t, Finished r)))
      | Finished r \<Rightarrow> (s, t))"

fun interleave ::
  "(store \<Rightarrow> 't \<Rightarrow> store \<times> 't) \<Rightarrow> nat list \<Rightarrow> store \<Rightarrow> 't list \<Rightarrow> store \<times> 't list" where
  "interleave stp [] s ts = (s, ts)"
| "interleave stp (i # sched) s ts =
     (if i < length ts
      then (case stp s (ts ! i) of (s', t') \<Rightarrow> interleave stp sched s' (ts[i := t']))
      else interleave stp sched s ts)"

subsection \<open>Status updates and deletion\<close>

text \<open>\<open>PATCH /requests/status/:id\<close>, index.js lines 545-562.\<close>

definition patch_requests_status_id_ix2 :: "store \<Rightarrow> request \<Rightarrow> reply \<times> store" where
  "patch_requests_status_id_ix2 =
     authenticated (\<lambda>s email rq.
       if get (body rq) ''status'' \<notin> set [JStr ''done'', JStr ''canceled'']
       then (Send 400 (Message ''Invalid status''), s)
       else (case params_id rq of
               None \<Rightarrow> (NoReply, s)
             | Some i \<Rightarrow>
                 (case updateOne
                         [(''_id'', JId i), (''requesterEmail'', JStr (trim email)),
                          (''status'', JStr ''inprogress'')]
                         [(''status'', get (body rq) ''status'')] (requests s) of
                    (r, rs) \<Rightarrow> (Send 200 (UpdateResult (fst r) (snd r)), s\<lparr>requests := rs\<rparr>))))"

text \<open>part_000 lines 327-344: behind the donor guard, by id and requester only.\<close>

definition patch_requests_status_id_p0 :: "store \<Rightarrow> request \<Rightarrow> reply \<times> store" where
  "patch_requests_status_id_p0 =
     guarded verifyDonor (\<lambda>s email rq.
       case params_id rq of
         None \<Rightarrow> (NoReply, s)
       | Some i \<Rightarrow>
           (case updateOne [(''_id'', JId i), (''requesterEmail'', JStr email)]
                   [(''status'', get (body rq) ''status'')] (requests s) of
              (r, rs) \<Rightarrow> (Send 200 (UpdateResult (fst r) (snd r)), s\<lparr>requests := rs\<rparr>)))"

text \<open>The admin and volunteer overrides, part_000 lines 346-370.\<close>

definition status_override :: "store \<Rightarrow> string \<Rightarrow> request \<Rightarrow> reply \<times> store" where
  "status_override s email rq =
     (case params_id rq of
        None \<Rightarrow> (NoReply, s)
      | Some i \<Rightarrow>
          (case updateOne [(''_id'', JId i)] [(''status'', get (body rq) ''status'')] (requests s) of
             (r, rs) \<Rightarrow> (Send 200 (UpdateResult (fst r) (snd r)), s\<lparr>requests := rs\<rparr>)))"

definition patch_admin_requests_status_id_p0 :: "store \<Rightarrow> request \<Rightarrow> reply \<times> store" where
  "patch_admin_requests_status_id_p0 = guarded verifyAdmin status_override"

definition patch_volunteer_requests_status_id_p0 :: "store \<Rightarrow> request \<Rightarrow> reply \<times> store" where
  "patch_volunteer_requests_status_id_p0 = guarded verifyVolunteer status_override"

text \<open>\<open>DELETE /requests/:id\<close> and \<open>DELETE /admin/requests/:id\<close>, part_000 lines 375-398.\<close>

definition delete_requests_id_p0 :: "store \<Rightarrow> request \<Rightarrow> reply \<times> store" where
  "delete_requests_id_p0 =
     guarded verifyDonor (\<lambda>s email rq.
       case params_id rq of
         None \<Rightarrow> (NoReply, s)
       | Some i \<Rightarrow>
           (case deleteOne [(''_id'', JId i), (''requesterEmail'', JStr email)] (requests s) of
              (n, rs) \<Rightarrow> (Send 200 (DeleteResult n), s\<lparr>requests := rs\<rparr>)))"

definition delete_admin_requests_id_p0 :: "store \<Rightarrow> request \<Rightarrow> reply \<times> store" where
  "delete_admin_requests_id_p0 =
     guarded verifyAdmin (\<lambda>s email rq.
       case params_id rq of
         None \<Rightarrow> (NoReply, s)
       | Some i \<Rightarrow>
           (case deleteOne [(''_id'', JId i)] (requests s) of
              (n, rs) \<Rightarrow> (Send 200 (DeleteResult n), s\<lparr>requests := rs\<rparr>)))"

section \<open>Payments\<close>

text \<open>
  \<open>GET /success-payment\<close>, part_000 lines 428-449 and index.js lines 605-626. A session
  that is not paid gets no reply.
\<close>

definition get_success_payment_p0 :: "store \<Rightarrow> request \<Rightarrow> reply \<times> store" where
  "get_success_payment_p0 s rq =
     (case retrieved rq of
        None \<Rightarrow> (NoReply, s)
      | Some session \<Rightarrow>
          if payment_status session = ''paid''
          then (case findOne [(''transactionId'', payment_intent session)] (payments s) of
                  Some exists \<Rightarrow> (Send 200 SuccessTrue, s)
                | None \<Rightarrow>
                    (case insertOne
                            (map_of
                               [(''amount'', JNum (of_int (amount_total session) / 100)),
                                (''donorEmail'', customer_email session),
                                (''transactionId'', payment_intent session),
                                (''status'', JStr (payment_status session)),
                                (''paidAt'', JDate (clock rq))])
                            (payments s) of
                       Inl e \<Rightarrow> (NoReply, s)
                     | Inr (i, ps) \<Rightarrow> (Send 200 SuccessTrue, s\<lparr>payments := ps\<rparr>)))
          else (NoReply, s))"

text \<open>index.js lines 252-277: the record carries the currency as well.\<close>

definition get_success_payment_ix1 :: "store \<Rightarrow> request \<Rightarrow> reply \<times> store" where
  "get_success_payment_ix1 s rq =
     (case retrieved rq of
        None \<Rightarrow> (NoReply, s)
      | Some session \<Rightarrow>
          if payment_status session = ''paid''
          then (case findOne [(''transactionId'', payment_intent session)] (payments s) of
                  Some exists \<Rightarrow> (Send 200 SuccessTrue, s)
                | None \<Rightarrow>
                    (case insertOne
                            (map_of
                               [(''amount'', JNum (of_int (amount_total session) / 100)),
                                (''currency'', currency session),
                                (''donorEmail'', customer_email session),
                                (''transactionId'', payment_intent session),
                                (''status'', JStr (payment_status session)),
                                (''paidAt'', JDate (clock rq))])
                            (payments s) of
                       Inl e \<Rightarrow> (NoReply, s)
                     | Inr (i, ps) \<Rightarrow> (Send 200 SuccessTrue, s\<lparr>payments := ps\<rparr>)))
          else (NoReply, s))"

section \<open>Handlers with a lookup and an insert\<close>

text \<open>
  \<open>POST /users\<close> and \<open>GET /success-payment\<close> await \<open>findOne\<close> and then \<open>insertOne\<close>.
  As for a claim, each is written as the part up to and including the check of what
  \<open>findOne\<close> returned (\<open>Some r\<close>: the handler ended there with \<open>r\<close>) and the part from
  \<open>insertOne\<close> on. A handler in flight is before its lookup, between its lookup and its
  insert, or finished.
\<close>

definition post_users_lookup_p0 :: "store \<Rightarrow> request \<Rightarrow> reply option" where
  "post_users_lookup_p0 s rq =
     (case findOne [(''email'', get (body rq) ''email'')] (users s) of
        Some exists \<Rightarrow> Some (Send 200 (Message ''User already exists''))
      | None \<Rightarrow> None)"

definition post_users_insert_p0 :: "store \<Rightarrow> request \<Rightarrow> reply \<times> store" where
  "post_users_insert_p0 s rq =
     (case insertOne
             ((map_of (body rq))
                (''role'' \<mapsto> JStr ''donor'', ''status'' \<mapsto> JStr ''active'',
                 ''createdAt'' \<mapsto> JDate (clock rq)))
             (users s) of
        Inl e \<Rightarrow> (NoReply, s)
      | Inr (i, us) \<Rightarrow> (Send 200 (InsertResult i), s\<lparr>users := us\<rparr>))"

definition payment_lookup :: "store \<Rightarrow> request \<Rightarrow> reply option" where
  "payment_lookup s rq =
     (case retrieved rq of
        None \<Rightarrow> Some NoReply
      | Some session \<Rightarrow>
          if payment_status session = ''paid''
          then (case findOne [(''transactionId'', payment_intent session)] (payments s) of
                  Some exists \<Rightarrow> Some (Send 200 SuccessTrue)
                | None \<Rightarrow> None)
          else Some NoReply)"

definition payment_insert_p0 :: "store \<Rightarrow> request \<Rightarrow> reply \<times> store" where
  "payment_insert_p0 s rq =
     (case retrieved rq of
        None \<Rightarrow> (NoReply, s)
      | Some session \<Rightarrow>
          (case insertOne
                  (map_of
                     [(''amount'', JNum (of_int (amount_total session) / 100)),
                      (''donorEmail'', customer_email session),
                      (''transactionId'', payment_intent session),
                      (''status'', JStr (payment_status session)),
                      (''paidAt'', JDate (clock rq))])
                  (payments s) of
             Inl e \<Rightarrow> (NoReply, s)
           | Inr (i, ps) \<Rightarrow> (Send 200 SuccessTrue, s\<lparr>payments := ps\<rparr>)))"

definition payment_insert_ix1 :: "store \<Rightarrow> request \<Rightarrow> reply \<times> store" where
  "payment_insert_ix1 s rq =
     (case retrieved rq of
        None \<Rightarrow> (NoReply, s)
      | Some session \<Rightarrow>
          (case insertOne
                  (map_of
                     [(''amount'', JNum (of_int (amount_total session) / 100)),
                      (''currency'', currency session),
                      (''donorEmail'', customer_email session),
                      (''transactionId'', payment_intent session),
                      (''status'', JStr (payment_status session)),
                      (''paidAt'', JDate (clock rq))])
                  (payments s) of
             Inl e \<Rightarrow> (NoReply, s)
           | Inr (i, ps) \<Rightarrow> (Send 200 SuccessTrue, s\<lparr>payments := ps\<rparr>)))"

datatype phase = Before | Between | After reply

definition lookup_insert_step ::
  "(store \<Rightarrow> request \<Rightarrow> reply option) \<Rightarrow> (store \<Rightarrow> request \<Rightarrow> reply \<times> store) \<Rightarrow>
   store \<Rightarrow> request \<times> phase \<Rightarrow> store \<times> (request \<times> phase)" where
  "lookup_insert_step lookup write s t =
     (case snd t of
        Before \<Rightarrow>
          (case lookup s (fst t) of
             Some r \<Rightarrow> (s, (fst t, After r))
           | None \<Rightarrow> (s, (fst t, Between)))
      | Between \<Rightarrow> (case write s (fst t) of (r, s') \<Rightarrow> (s', (fst t, After r)))
      | After r \<Rightarrow> (s, t))"

section \<open>Facts about the store operations\<close>

lemma fld_empty: "fld Map.empty k = JNull"
  by (simp add: fld_def)

lemma fld_upd: "fld (d(k \<mapsto> v)) k' = (if k' = k then v else fld d k')"
  by (simp add: fld_def)

lemma findOne_None: "(findOne q c = None) = (\<forall>d\<in>set c. \<not> matches q d)"
  by (auto simp: findOne_def find_None_iff)

lemma findOne_Some_split:
  "findOne q c = Some d \<Longrightarrow> \<exists>pre post. c = pre @ d # post \<and> findOne q pre = None \<and> matches q d"
  unfolding findOne_def
proof (induction c)
  case Nil
  then show ?case by simp
next
  case (Cons a c)
  show ?case
  proof (cases "matches q a")
    case True
    with Cons.prems have "a = d" by simp
    with True have "a # c = [] @ d # c \<and> List.find (matches q) [] = None \<and> matches q d" by simp
    then show ?thesis by blast
  next
    case False
    with Cons.prems have "List.find (matches q) c = Some d" by simp
    from Cons.IH[OF this] obtain pre post where
      "c = pre @ d # post" "List.find (matches q) pre = None" "matches q d" by blast
    with False have "a # c = (a # pre) @ d # post \<and> List.find (matches q) (a # pre) = None \<and> matches q d"
      by simp
    then show ?thesis by blast
  qed
qed

lemma updateOne_no_match: "findOne q c = None \<Longrightarrow> updateOne q u c = ((0, 0), c)"
  by (induction c) (auto simp: findOne_def split: if_splits)

lemma updateOne_at:
  "findOne q pre = None \<Longrightarrow> matches q d \<Longrightarrow>
   updateOne q u (pre @ d # post) = ((1, if modifies u d then 1 else 0), pre @ set_fields u d # post)"
  by (induction pre) (auto simp: findOne_def split: if_splits)

lemma fld_set_fields_other: "map_of u k = None \<Longrightarrow> fld (set_fields u d) k = fld d k"
  by (simp add: fld_def set_fields_def map_add_def)

lemma fld_set_fields_hit: "map_of u k = Some v \<Longrightarrow> fld (set_fields u d) k = v"
  by (simp add: fld_def set_fields_def map_add_def)

lemma updateOne_keeps_field:
  "map_of u k = None \<Longrightarrow> map (\<lambda>d. fld d k) (snd (updateOne q u c)) = map (\<lambda>d. fld d k) c"
  by (induction c) (auto simp: fld_set_fields_other split: prod.splits)

section \<open>The role guards\<close>

lemma guarded_reject:
  "authorization rq = Token email \<Longrightarrow> guard s email = Some r \<Longrightarrow> guarded guard h s rq = (r, s)"
  by (simp add: guarded_def verifyFBToken_def)

lemma guarded_pass:
  "authorization rq = Token email \<Longrightarrow> guard s email = None \<Longrightarrow> guarded guard h s rq = h s email rq"
  by (simp add: guarded_def verifyFBToken_def)

text \<open>
  Claim C4. With the caller's record resolved to a role and a status, the donor guard and
  the volunteer guard let the request through exactly when the role is the required one
  and the status is not \<open>blocked\<close>; the admin guard lets it through exactly when the role
  is \<open>admin\<close>, whatever the status. A guard that rejects replies 403, and the handler
  behind it does not run: the store after the request is the store before it, for any
  handler and so for every guarded route of part_000 that writes.
\<close>

theorem role_guards:
  assumes "findOne [(''email'', JStr email)] (users s) = Some user"
      and "authorization rq = Token email"
  shows "((verifyDonor s email = None) =
            (fld user ''role'' = JStr ''donor'' \<and> fld user ''status'' \<noteq> JStr ''blocked''))
       \<and> ((verifyVolunteer s email = None) =
            (fld user ''role'' = JStr ''volunteer'' \<and> fld user ''status'' \<noteq> JStr ''blocked''))
       \<and> ((verifyAdmin s email = None) = (fld user ''role'' = JStr ''admin''))
       \<and> (\<forall>g \<in> {verifyDonor, verifyVolunteer, verifyAdmin}. \<forall>h.
             case g s email of
               Some r \<Rightarrow> (\<exists>m. r = Send 403 (Message m)) \<and> guarded g h s rq = (r, s)
             | None \<Rightarrow> guarded g h s rq = h s email rq)
       \<and> (verifyDonor s email \<noteq> None \<longrightarrow>
             snd (post_requests_p0 s rq) = s \<and> snd (patch_requests_status_id_p0 s rq) = s \<and>
             snd (delete_requests_id_p0 s rq) = s \<and> snd (get_my_requests_p0 s rq) = s)
       \<and> (verifyVolunteer s email \<noteq> None \<longrightarrow>
             snd (patch_volunteer_requests_status_id_p0 s rq) = s)
       \<and> (verifyAdmin s email \<noteq> None \<longrightarrow>
             snd (patch_update_user_status_p0 s rq) = s \<and>
             snd (patch_users_make_volunteer_id_p0 s rq) = s \<and>
             snd (patch_admin_requests_status_id_p0 s rq) = s \<and>
             snd (delete_admin_requests_id_p0 s rq) = s \<and> snd (get_admin_requests_p0 s rq) = s)"
proof -
  have d: "(verifyDonor s email = None) =
            (fld user ''role'' = JStr ''donor'' \<and> fld user ''status'' \<noteq> JStr ''blocked'')"
    using assms(1) by (simp add: verifyDonor_def)
  have v: "(verifyVolunteer s email = None) =
            (fld user ''role'' = JStr ''volunteer'' \<and> fld user ''status'' \<noteq> JStr ''blocked'')"
    using assms(1) by (simp add: verifyVolunteer_def)
  have a: "(verifyAdmin s email = None) = (fld user ''role'' = JStr ''admin'')"
    using assms(1) by (simp add: verifyAdmin_def)
  have m: "\<And>g r. g \<in> {verifyDonor, verifyVolunteer, verifyAdmin} \<Longrightarrow> g s email = Some r \<Longrightarrow>
             \<exists>m. r = Send 403 (Message m)"
    using assms(1)
    by (auto simp: verifyDonor_def verifyVolunteer_def verifyAdmin_def split: if_splits)
  have g: "\<forall>g \<in> {verifyDonor, verifyVolunteer, verifyAdmin}. \<forall>h.
             case g s email of
               Some r \<Rightarrow> (\<exists>m. r = Send 403 (Message m)) \<and> guarded g h s rq = (r, s)
             | None \<Rightarrow> guarded g h s rq = h s email rq"
  proof (intro ballI allI)
    fix g h assume gin: "g \<in> {verifyDonor, verifyVolunteer, verifyAdmin}"
    show "case g s email of
               Some r \<Rightarrow> (\<exists>m. r = Send 403 (Message m)) \<and> guarded g h s rq = (r, s)
             | None \<Rightarrow> guarded g h s rq = h s email rq"
    proof (cases "g s email")
      case None
      then show ?thesis using guarded_pass[of rq email g s h, OF assms(2)] by simp
    next
      case (Some r)
      then show ?thesis using guarded_reject[of rq email g s r h, OF assms(2)] m[OF gin Some] by simp
    qed
  qed
  have rej: "\<And>(g :: store \<Rightarrow> string \<Rightarrow> reply option) h. g s email \<noteq> None \<Longrightarrow> snd (guarded g h s rq) = s"
  proof -
    fix g :: "store \<Rightarrow> string \<Rightarrow> reply option" and h assume "g s email \<noteq> None"
    then obtain r where "g s email = Some r" by blast
    from guarded_reject[of rq email g s r h, OF assms(2) this] show "snd (guarded g h s rq) = s"
      by simp
  qed
  have rd: "verifyDonor s email \<noteq> None \<longrightarrow>
             snd (post_requests_p0 s rq) = s \<and> snd (patch_requests_status_id_p0 s rq) = s \<and>
             snd (delete_requests_id_p0 s rq) = s \<and> snd (get_my_requests_p0 s rq) = s"
    by (simp add: rej post_requests_p0_def patch_requests_status_id_p0_def
        delete_requests_id_p0_def get_my_requests_p0_def)
  have rv: "verifyVolunteer s email \<noteq> None \<longrightarrow>
             snd (patch_volunteer_requests_status_id_p0 s rq) = s"
    by (simp add: rej patch_volunteer_requests_status_id_p0_def)
  have ra: "verifyAdmin s email \<noteq> None \<longrightarrow>
             snd (patch_update_user_status_p0 s rq) = s \<and>
             snd (patch_users_make_volunteer_id_p0 s rq) = s \<and>
             snd (patch_admin_requests_status_id_p0 s rq) = s \<and>
             snd (delete_admin_requests_id_p0 s rq) = s \<and> snd (get_admin_requests_p0 s rq) = s"
    by (simp add: rej patch_update_user_status_p0_def patch_users_make_volunteer_id_p0_def
        patch_admin_requests_status_id_p0_def delete_admin_requests_id_p0_def
        get_admin_requests_p0_def)
  from d v a g rd rv ra show ?thesis by blast
qed

theorem role_guards_witness:
  "findOne [(''email'', JStr ''a@x'')]
     (users \<lparr>users = [map_of [(''email'', JStr ''a@x''), (''role'', JStr ''admin''), (''status'', JStr ''blocked'')]],
             requests = [], payments = []\<rparr>)
     = Some (map_of [(''email'', JStr ''a@x''), (''role'', JStr ''admin''), (''status'', JStr ''blocked'')])
   \<and> authorization \<lparr>authorization = Token ''a@x'', params_id = Some 1, query = Map.empty,
          page_number = None, size_number = None, body = [(''status'', JStr ''done'')], clock = 5,
          retrieved = None\<rparr> = Token ''a@x''
   \<and> verifyAdmin
        \<lparr>users = [map_of [(''email'', JStr ''a@x''), (''role'', JStr ''admin''), (''status'', JStr ''blocked'')]],
         requests = [], payments = []\<rparr> ''a@x'' = None
   \<and> verifyDonor
        \<lparr>users = [map_of [(''email'', JStr ''a@x''), (''role'', JStr ''admin''), (''status'', JStr ''blocked'')]],
         requests = [], payments = []\<rparr> ''a@x'' \<noteq> None
   \<and> snd (post_requests_p0
        \<lparr>users = [map_of [(''email'', JStr ''a@x''), (''role'', JStr ''admin''), (''status'', JStr ''blocked'')]],
         requests = [], payments = []\<rparr>
        \<lparr>authorization = Token ''a@x'', params_id = Some 1, query = Map.empty,
          page_number = None, size_number = None, body = [(''status'', JStr ''done'')], clock = 5,
          retrieved = None\<rparr>)
      = \<lparr>users = [map_of [(''email'', JStr ''a@x''), (''role'', JStr ''admin''), (''status'', JStr ''blocked'')]],
         requests = [], payments = []\<rparr>"
proof -
  let ?u = "map_of [(''email'', JStr ''a@x''), (''role'', JStr ''admin''), (''status'', JStr ''blocked'')]"
  let ?s = "\<lparr>users = [?u], requests = [], payments = []\<rparr>"
  let ?rq = "\<lparr>authorization = Token ''a@x'', params_id = Some 1, query = Map.empty,
          page_number = None, size_number = None, body = [(''status'', JStr ''done'')], clock = 5,
          retrieved = None\<rparr>"
  have h1: "findOne [(''email'', JStr ''a@x'')] (users ?s) = Some ?u"
    by (simp add: findOne_def matches_def fld_def)
  have h2: "authorization ?rq = Token ''a@x''" by simp
  have r: "fld ?u ''role'' = JStr ''admin''" by (simp add: fld_def)
  from role_guards[OF h1 h2] r h1 h2 show ?thesis by simp
qed

section \<open>Recording a payment\<close>

lemma matches_single: "matches [(k, v)] d = (fld d k = v)"
  by (simp add: matches_def)

lemma countDocuments_snoc:
  "countDocuments q (c @ [d]) = countDocuments q c + (if matches q d then 1 else 0)"
  by (simp add: countDocuments_def)

lemma findOne_None_count: "(findOne q c = None) = (countDocuments q c = 0)"
  by (auto simp: findOne_None countDocuments_def filter_empty_conv)

lemma success_payment_p0_payments:
  "payments (snd (get_success_payment_p0 s rq)) =
     (case retrieved rq of
        None \<Rightarrow> payments s
      | Some se \<Rightarrow>
          if payment_status se = ''paid'' \<and>
             findOne [(''transactionId'', payment_intent se)] (payments s) = None
          then payments s @
                 [(map_of
                     [(''amount'', JNum (of_int (amount_total se) / 100)),
                      (''donorEmail'', customer_email se),
                      (''transactionId'', payment_intent se),
                      (''status'', JStr (payment_status se)),
                      (''paidAt'', JDate (clock rq))])
                  (''_id'' \<mapsto> JId (next_id (payments s)))]
          else payments s)"
  by (auto simp: get_success_payment_p0_def insertOne_def fld_def split: option.splits)

lemma success_payment_ix1_payments:
  "payments (snd (get_success_payment_ix1 s rq)) =
     (case retrieved rq of
        None \<Rightarrow> payments s
      | Some se \<Rightarrow>
          if payment_status se = ''paid'' \<and>
             findOne [(''transactionId'', payment_intent se)] (payments s) = None
          then payments s @
                 [(map_of
                     [(''amount'', JNum (of_int (amount_total se) / 100)),
                      (''currency'', currency se),
                      (''donorEmail'', customer_email se),
                      (''transactionId'', payment_intent se),
                      (''status'', JStr (payment_status se)),
                      (''paidAt'', JDate (clock rq))])
                  (''_id'' \<mapsto> JId (next_id (payments s)))]
          else payments s)"
  by (auto simp: get_success_payment_ix1_def insertOne_def fld_def split: option.splits)

lemma success_payment_p0_frame:
  "users (snd (get_success_payment_p0 s rq)) = users s \<and>
   requests (snd (get_success_payment_p0 s rq)) = requests s"
  by (auto simp: get_success_payment_p0_def split: option.splits sum.splits)

lemma success_payment_ix1_frame:
  "users (snd (get_success_payment_ix1 s rq)) = users s \<and>
   requests (snd (get_success_payment_ix1 s rq)) = requests s"
  by (auto simp: get_success_payment_ix1_def split: option.splits sum.splits)

text \<open>One call adds at most one record, and only under an id that had none.\<close>

lemma success_payment_p0_count:
  "countDocuments [(''transactionId'', t)] (payments s) \<le> 1 \<Longrightarrow>
   countDocuments [(''transactionId'', t)] (payments s) \<le>
     countDocuments [(''transactionId'', t)] (payments (snd (get_success_payment_p0 s rq))) \<and>
   countDocuments [(''transactionId'', t)] (payments (snd (get_success_payment_p0 s rq))) \<le> 1"
  by (auto simp: success_payment_p0_payments countDocuments_snoc matches_single fld_def
      findOne_None_count split: option.splits)

lemma success_payment_ix1_count:
  "countDocuments [(''transactionId'', t)] (payments s) \<le> 1 \<Longrightarrow>
   countDocuments [(''transactionId'', t)] (payments s) \<le>
     countDocuments [(''transactionId'', t)] (payments (snd (get_success_payment_ix1 s rq))) \<and>
   countDocuments [(''transactionId'', t)] (payments (snd (get_success_payment_ix1 s rq))) \<le> 1"
  by (auto simp: success_payment_ix1_payments countDocuments_snoc matches_single fld_def
      findOne_None_count split: option.splits)

lemma repeated_count:
  assumes step: "\<And>s rq. countDocuments q (payments s) \<le> 1 \<Longrightarrow>
      countDocuments q (payments s) \<le> countDocuments q (payments (snd (h s rq))) \<and>
      countDocuments q (payments (snd (h s rq))) \<le> (1::nat)"
  shows "countDocuments q (payments s) \<le> 1 \<Longrightarrow>
     countDocuments q (payments s) \<le> countDocuments q (payments (fold (\<lambda>rq s. snd (h s rq)) rqs s)) \<and>
     countDocuments q (payments (fold (\<lambda>rq s. snd (h s rq)) rqs s)) \<le> 1"
proof (induction rqs arbitrary: s)
  case Nil
  then show ?case by simp
next
  case (Cons rq rqs)
  from step[OF Cons.prems, of rq] have a: "countDocuments q (payments s) \<le> countDocuments q (payments (snd (h s rq)))"
    and b: "countDocuments q (payments (snd (h s rq))) \<le> 1" by simp_all
  from Cons.IH[OF b] a show ?case by simp
qed

lemma fld_map_of_Nil: "fld (map_of []) k = JNull"
  by (simp add: fld_def)

lemma fld_map_of_Cons: "fld (map_of ((k, v) # b)) k' = (if k = k' then v else fld (map_of b) k')"
  by (simp add: fld_def)

lemmas fld_eval = fld_upd fld_map_of_Nil fld_map_of_Cons

lemma success_payment_count_any:
  assumes "h \<in> {get_success_payment_p0, get_success_payment_ix1}"
      and "countDocuments [(''transactionId'', t)] (payments s) \<le> 1"
  shows "countDocuments [(''transactionId'', t)] (payments s) \<le>
           countDocuments [(''transactionId'', t)] (payments (snd (h s rq))) \<and>
         countDocuments [(''transactionId'', t)] (payments (snd (h s rq))) \<le> 1"
  using assms success_payment_p0_count[of t s rq] success_payment_ix1_count[of t s rq] by auto

lemma success_payment_first:
  assumes "h \<in> {get_success_payment_p0, get_success_payment_ix1}"
      and "retrieved rq = Some se" and "payment_status se = ''paid''"
      and "countDocuments [(''transactionId'', payment_intent se)] (payments s) = 0"
  shows "countDocuments [(''transactionId'', payment_intent se)] (payments (snd (h s rq))) = 1"
  using assms
  by (auto simp: success_payment_p0_payments success_payment_ix1_payments countDocuments_snoc
      matches_single fld_def findOne_None_count)

text \<open>
  Runs of \<open>GET /success-payment\<close> that follow one another, each ending before the next
  starts. One run appends a payment record exactly when the session is paid and no stored
  payment carries its transaction id; in every other case the payments are unchanged, and
  users and requests are never touched. So over such runs a transaction id that is stored
  at most once stays stored at most once, and an id that is not stored is stored exactly
  once after one or more runs that report it paid.
\<close>

lemma payment_recorded_once:
  assumes "h \<in> {get_success_payment_p0, get_success_payment_ix1}"
  shows "(case retrieved rq of
            None \<Rightarrow> payments (snd (h s rq)) = payments s
          | Some se \<Rightarrow>
              if payment_status se = ''paid'' \<and>
                 (\<forall>d\<in>set (payments s). fld d ''transactionId'' \<noteq> payment_intent se)
              then \<exists>p. payments (snd (h s rq)) = payments s @ [p] \<and>
                       fld p ''transactionId'' = payment_intent se
              else payments (snd (h s rq)) = payments s)
       \<and> users (snd (h s rq)) = users s \<and> requests (snd (h s rq)) = requests s
       \<and> (countDocuments [(''transactionId'', t)] (payments s) \<le> 1 \<longrightarrow>
            countDocuments [(''transactionId'', t)]
              (payments (fold (\<lambda>rq s. snd (h s rq)) rqs s)) \<le> 1)
       \<and> (countDocuments [(''transactionId'', t)] (payments s) = 0 \<and> rqs \<noteq> [] \<and>
            (\<forall>rq\<in>set rqs. \<exists>se. retrieved rq = Some se \<and> payment_status se = ''paid'' \<and>
                                 payment_intent se = t) \<longrightarrow>
            countDocuments [(''transactionId'', t)]
              (payments (fold (\<lambda>rq s. snd (h s rq)) rqs s)) = 1)"
proof -
  let ?q = "[(''transactionId'', t)]"
  have one: "case retrieved rq of
            None \<Rightarrow> payments (snd (h s rq)) = payments s
          | Some se \<Rightarrow>
              if payment_status se = ''paid'' \<and>
                 (\<forall>d\<in>set (payments s). fld d ''transactionId'' \<noteq> payment_intent se)
              then \<exists>p. payments (snd (h s rq)) = payments s @ [p] \<and>
                       fld p ''transactionId'' = payment_intent se
              else payments (snd (h s rq)) = payments s"
    using assms
    by (auto simp: success_payment_p0_payments success_payment_ix1_payments findOne_None
        matches_single fld_eval split: option.splits)
  have frame: "users (snd (h s rq)) = users s \<and> requests (snd (h s rq)) = requests s"
    using assms success_payment_p0_frame[of s rq] success_payment_ix1_frame[of s rq] by auto
  have step: "\<And>s rq. countDocuments ?q (payments s) \<le> 1 \<Longrightarrow>
      countDocuments ?q (payments s) \<le> countDocuments ?q (payments (snd (h s rq))) \<and>
      countDocuments ?q (payments (snd (h s rq))) \<le> 1"
    using success_payment_count_any[OF assms] by blast
  have most: "countDocuments ?q (payments s) \<le> 1 \<longrightarrow>
            countDocuments ?q (payments (fold (\<lambda>rq s. snd (h s rq)) rqs s)) \<le> 1"
    using repeated_count[of ?q h s rqs, OF step] by blast
  have exactly: "countDocuments ?q (payments s) = 0 \<and> rqs \<noteq> [] \<and>
            (\<forall>rq\<in>set rqs. \<exists>se. retrieved rq = Some se \<and> payment_status se = ''paid'' \<and>
                                 payment_intent se = t) \<longrightarrow>
            countDocuments ?q (payments (fold (\<lambda>rq s. snd (h s rq)) rqs s)) = 1"
  proof (intro impI, elim conjE)
    assume z: "countDocuments ?q (payments s) = 0" and ne: "rqs \<noteq> []"
      and all: "\<forall>rq\<in>set rqs. \<exists>se. retrieved rq = Some se \<and> payment_status se = ''paid'' \<and>
                                 payment_intent se = t"
    from ne obtain r rest where rqs: "rqs = r # rest" by (cases rqs) auto
    with all obtain se where se: "retrieved r = Some se" "payment_status se = ''paid''"
      "payment_intent se = t" by auto
    from success_payment_first[OF assms se(1) se(2)] z se(3)
    have f: "countDocuments ?q (payments (snd (h s r))) = 1" by simp
    then have "countDocuments ?q (payments (snd (h s r))) \<le> 1" by simp
    from repeated_count[of ?q h "snd (h s r)" rest, OF step this] f
    show "countDocuments ?q (payments (fold (\<lambda>rq s. snd (h s rq)) rqs s)) = 1"
      by (simp add: rqs)
  qed
  from one frame most exactly show ?thesis by blast
qed

text \<open>The two parts of a handler, run one after the other, are the handler.\<close>

lemma get_success_payment_split:
  "get_success_payment_p0 s rq =
     (case payment_lookup s rq of Some r \<Rightarrow> (r, s) | None \<Rightarrow> payment_insert_p0 s rq)
   \<and> get_success_payment_ix1 s rq =
     (case payment_lookup s rq of Some r \<Rightarrow> (r, s) | None \<Rightarrow> payment_insert_ix1 s rq)"
  by (simp add: get_success_payment_p0_def get_success_payment_ix1_def payment_lookup_def
      payment_insert_p0_def payment_insert_ix1_def split: option.splits)

lemma post_users_p0_split:
  "post_users_p0 s rq =
     (case post_users_lookup_p0 s rq of Some r \<Rightarrow> (r, s) | None \<Rightarrow> post_users_insert_p0 s rq)"
  by (simp add: post_users_p0_def post_users_lookup_p0_def post_users_insert_p0_def
      split: option.splits)

lemma lookup_insert_alone:
  "interleave (lookup_insert_step lookup write) [0, 0] s [(rq, Before)] =
     (snd (case lookup s rq of Some r \<Rightarrow> (r, s) | None \<Rightarrow> write s rq),
      [(rq, After (fst (case lookup s rq of Some r \<Rightarrow> (r, s) | None \<Rightarrow> write s rq)))])"
  by (auto simp: lookup_insert_step_def split: option.splits prod.splits)

text \<open>
  Claim C2 fails on a schedule the server allows. No payment is stored; the success page
  of the paid session with transaction id \<open>pi_1\<close> is requested twice (a reload, a retried
  redirect), and both handlers run their \<open>findOne\<close> (steps 0 and 1) before either runs
  its \<open>insertOne\<close> (steps 0 and 1 again). Both find nothing, both insert, both reply
  success: two payment records carry the transaction id. The first index.js snapshot does
  the same.
\<close>

theorem payment_race:
  "map snd (snd (interleave (lookup_insert_step payment_lookup payment_insert_p0) [0, 1, 0, 1]
         \<lparr>users = [], requests = [], payments = []\<rparr>
         [(\<lparr>authorization = NoHeader, params_id = None, query = Map.empty, page_number = None,
           size_number = None, body = [], clock = 7,
           retrieved = Some \<lparr>payment_status = ''paid'', amount_total = 2500,
             currency = JStr ''usd'', customer_email = JStr ''d@x'',
             payment_intent = JStr ''pi_1''\<rparr>\<rparr>, Before),
          (\<lparr>authorization = NoHeader, params_id = None, query = Map.empty, page_number = None,
           size_number = None, body = [], clock = 9,
           retrieved = Some \<lparr>payment_status = ''paid'', amount_total = 2500,
             currency = JStr ''usd'', customer_email = JStr ''d@x'',
             payment_intent = JStr ''pi_1''\<rparr>\<rparr>, Before)]))
     = [After (Send 200 SuccessTrue), After (Send 200 SuccessTrue)]
   \<and> countDocuments [(''transactionId'', JStr ''pi_1'')]
        (payments (fst (interleave (lookup_insert_step payment_lookup payment_insert_p0) [0, 1, 0, 1]
         \<lparr>users = [], requests = [], payments = []\<rparr>
         [(\<lparr>authorization = NoHeader, params_id = None, query = Map.empty, page_number = None,
           size_number = None, body = [], clock = 7,
           retrieved = Some \<lparr>payment_status = ''paid'', amount_total = 2500,
             currency = JStr ''usd'', customer_email = JStr ''d@x'',
             payment_intent = JStr ''pi_1''\<rparr>\<rparr>, Before),
          (\<lparr>authorization = NoHeader, params_id = None, query = Map.empty, page_number = None,
           size_number = None, body = [], clock = 9,
           retrieved = Some \<lparr>payment_status = ''paid'', amount_total = 2500,
             currency = JStr ''usd'', customer_email = JStr ''d@x'',
             payment_intent = JStr ''pi_1''\<rparr>\<rparr>, Before)]))) = 2
   \<and> map snd (snd (interleave (lookup_insert_step payment_lookup payment_insert_ix1) [0, 1, 0, 1]
         \<lparr>users = [], requests = [], payments = []\<rparr>
         [(\<lparr>authorization = NoHeader, params_id = None, query = Map.empty, page_number = None,
           size_number = None, body = [], clock = 7,
           retrieved = Some \<lparr>payment_status = ''paid'', amount_total = 2500,
             currency = JStr ''usd'', customer_email = JStr ''d@x'',
             payment_intent = JStr ''pi_1''\<rparr>\<rparr>, Before),
          (\<lparr>authorization = NoHeader, params_id = None, query = Map.empty, page_number = None,
           size_number = None, body = [], clock = 9,
           retrieved = Some \<lparr>payment_status = ''paid'', amount_total = 2500,
             currency = JStr ''usd'', customer_email = JStr ''d@x'',
             payment_intent = JStr ''pi_1''\<rparr>\<rparr>, Before)]))
     = [After (Send 200 SuccessTrue), After (Send 200 SuccessTrue)]
   \<and> countDocuments [(''transactionId'', JStr ''pi_1'')]
        (payments (fst (interleave (lookup_insert_step payment_lookup payment_insert_ix1) [0, 1, 0, 1]
         \<lparr>users = [], requests = [], payments = []\<rparr>
         [(\<lparr>authorization = NoHeader, params_id = None, query = Map.empty, page_number = None,
           size_number = None, body = [], clock = 7,
           retrieved = Some \<lparr>payment_status = ''paid'', amount_total = 2500,
             currency = JStr ''usd'', customer_email = JStr ''d@x'',
             payment_intent = JStr ''pi_1''\<rparr>\<rparr>, Before),
          (\<lparr>authorization = NoHeader, params_id = None, query = Map.empty, page_number = None,
           size_number = None, body = [], clock = 9,
           retrieved = Some \<lparr>payment_status = ''paid'', amount_total = 2500,
             currency = JStr ''usd'', customer_email = JStr ''d@x'',
             payment_intent = JStr ''pi_1''\<rparr>\<rparr>, Before)]))) = 2"
  by (simp add: lookup_insert_step_def payment_lookup_def payment_insert_p0_def
      payment_insert_ix1_def findOne_def insertOne_def countDocuments_def matches_def
      fld_eval fld_empty)

text \<open>
  Claim C8. A run of \<open>GET /success-payment\<close> on a paid session stores at most one new
  record, and the amount of the record it stores is the provider's \<open>amount_total\<close>
  divided by 100: 2500 is stored as 25.
\<close>

theorem stored_amount:
  assumes "h \<in> {get_success_payment_p0, get_success_payment_ix1}"
      and "retrieved rq = Some se" and "payment_status se = ''paid''"
  shows "\<exists>new. payments (snd (h s rq)) = payments s @ new
           \<and> length new =
               (if findOne [(''transactionId'', payment_intent se)] (payments s) = None then 1 else 0)
           \<and> (\<forall>p\<in>set new. fld p ''amount'' = JNum (of_int (amount_total se) / 100)
                            \<and> fld p ''transactionId'' = payment_intent se)"
proof (cases "findOne [(''transactionId'', payment_intent se)] (payments s) = None")
  case True
  with assms show ?thesis
    by (auto simp: success_payment_p0_payments success_payment_ix1_payments fld_eval)
next
  case False
  with assms have "payments (snd (h s rq)) = payments s @ []"
    by (auto simp: success_payment_p0_payments success_payment_ix1_payments)
  with False show ?thesis by auto
qed

theorem stored_amount_witness:
  "get_success_payment_p0 \<in> {get_success_payment_p0, get_success_payment_ix1}
   \<and> retrieved \<lparr>authorization = NoHeader, params_id = None, query = Map.empty, page_number = None,
        size_number = None, body = [], clock = 7,
        retrieved = Some \<lparr>payment_status = ''paid'', amount_total = 2500,
          currency = JStr ''usd'', customer_email = JStr ''d@x'',
          payment_intent = JStr ''pi_1''\<rparr>\<rparr>
       = Some \<lparr>payment_status = ''paid'', amount_total = 2500,
          currency = JStr ''usd'', customer_email = JStr ''d@x'', payment_intent = JStr ''pi_1''\<rparr>
   \<and> payment_status \<lparr>payment_status = ''paid'', amount_total = 2500,
          currency = JStr ''usd'', customer_email = JStr ''d@x'', payment_intent = JStr ''pi_1''\<rparr>
       = ''paid''
   \<and> map (\<lambda>p. fld p ''amount'')
         (payments (snd (get_success_payment_p0 \<lparr>users = [], requests = [], payments = []\<rparr>
            \<lparr>authorization = NoHeader, params_id = None, query = Map.empty, page_number = None,
              size_number = None, body = [], clock = 7,
              retrieved = Some \<lparr>payment_status = ''paid'', amount_total = 2500,
                currency = JStr ''usd'', customer_email = JStr ''d@x'',
                payment_intent = JStr ''pi_1''\<rparr>\<rparr>)))
       = [JNum 25]"
  using stored_amount[where h = get_success_payment_p0 and rq =
      "\<lparr>authorization = NoHeader, params_id = None, query = Map.empty, page_number = None,
              size_number = None, body = [], clock = 7,
              retrieved = Some \<lparr>payment_status = ''paid'', amount_total = 2500,
                currency = JStr ''usd'', customer_email = JStr ''d@x'',
                payment_intent = JStr ''pi_1''\<rparr>\<rparr>"
      and se = "\<lparr>payment_status = ''paid'', amount_total = 2500,
          currency = JStr ''usd'', customer_email = JStr ''d@x'', payment_intent = JStr ''pi_1''\<rparr>"
      and s = "\<lparr>users = [], requests = [], payments = []\<rparr>"]
  by (auto simp: findOne_def length_Suc_conv)

section \<open>Creating a user\<close>

lemma map_of_filter_keys:
  "map_of (filter (\<lambda>(k, v). P k) b) k = (if P k then map_of b k else None)"
  by (induction b) auto

lemma findOne_single_None:
  "(findOne [(k, v)] c = None) = (v \<notin> set (map (\<lambda>d. fld d k) c))"
  by (auto simp: findOne_None matches_single)

lemma insertOne_result:
  "insertOne d c = Inl DuplicateKey \<and> fld d ''_id'' \<noteq> JNull \<or>
   (\<exists>i e. insertOne d c = Inr (i, c @ [e]) \<and> (\<forall>k. k \<noteq> ''_id'' \<longrightarrow> fld e k = fld d k))"
  by (auto simp: insertOne_def fld_upd)

lemma post_users_p0_new:
  assumes "findOne [(''email'', get (body rq) ''email'')] (users s) = None"
  shows "post_users_p0 s rq = (NoReply, s) \<and> get (body rq) ''_id'' \<noteq> JNull \<or>
         (\<exists>d i. post_users_p0 s rq = (Send 200 (InsertResult i), s\<lparr>users := users s @ [d]\<rparr>) \<and>
                fld d ''role'' = JStr ''donor'' \<and> fld d ''status'' = JStr ''active'' \<and>
                fld d ''email'' = get (body rq) ''email'')"
proof -
  let ?d = "(map_of (body rq))(''role'' \<mapsto> JStr ''donor'', ''status'' \<mapsto> JStr ''active'',
                      ''createdAt'' \<mapsto> JDate (clock rq))"
  have id: "fld ?d ''_id'' = get (body rq) ''_id''" by (simp add: fld_upd get_def)
  from insertOne_result[of ?d "users s"] show ?thesis
  proof
    assume "insertOne ?d (users s) = Inl DuplicateKey \<and> fld ?d ''_id'' \<noteq> JNull"
    with assms id show ?thesis by (simp add: post_users_p0_def)
  next
    assume "\<exists>i e. insertOne ?d (users s) = Inr (i, users s @ [e]) \<and>
               (\<forall>k. k \<noteq> ''_id'' \<longrightarrow> fld e k = fld ?d k)"
    then obtain i e where ins: "insertOne ?d (users s) = Inr (i, users s @ [e])"
      and same: "\<forall>k. k \<noteq> ''_id'' \<longrightarrow> fld e k = fld ?d k" by blast
    from same have "fld e ''role'' = JStr ''donor''" "fld e ''status'' = JStr ''active''"
      "fld e ''email'' = get (body rq) ''email''" by (simp_all add: fld_upd get_def)
    with assms ins show ?thesis by (auto simp: post_users_p0_def)
  qed
qed

lemma post_users_ix2_new:
  assumes "findOne [(''email'', get (body rq) ''email'')] (users s) = None"
  shows "post_users_ix2 s rq = (NoReply, s) \<and> get (body rq) ''_id'' \<noteq> JNull \<or>
         (\<exists>d i. post_users_ix2 s rq = (Send 200 (InsertResult i), s\<lparr>users := users s @ [d]\<rparr>) \<and>
                fld d ''role'' = JStr ''donor'' \<and> fld d ''status'' = JStr ''active'' \<and>
                fld d ''email'' = get (body rq) ''email'')"
proof -
  let ?d = "(map_of (body rq))(''createdAt'' \<mapsto> JDate (clock rq), ''role'' \<mapsto> JStr ''donor'',
                     ''status'' \<mapsto> JStr ''active'')"
  have id: "fld ?d ''_id'' = get (body rq) ''_id''" by (simp add: fld_upd get_def)
  from insertOne_result[of ?d "users s"] show ?thesis
  proof
    assume "insertOne ?d (users s) = Inl DuplicateKey \<and> fld ?d ''_id'' \<noteq> JNull"
    with assms id show ?thesis by (simp add: post_users_ix2_def)
  next
    assume "\<exists>i e. insertOne ?d (users s) = Inr (i, users s @ [e]) \<and>
               (\<forall>k. k \<noteq> ''_id'' \<longrightarrow> fld e k = fld ?d k)"
    then obtain i e where ins: "insertOne ?d (users s) = Inr (i, users s @ [e])"
      and same: "\<forall>k. k \<noteq> ''_id'' \<longrightarrow> fld e k = fld ?d k" by blast
    from same have "fld e ''role'' = JStr ''donor''" "fld e ''status'' = JStr ''active''"
      "fld e ''email'' = get (body rq) ''email''" by (simp_all add: fld_upd get_def)
    with assms ins show ?thesis by (auto simp: post_users_ix2_def)
  qed
qed

text \<open>The first index.js snapshot inserts whatever is stored, with the role \<open>admin\<close>.\<close>

lemma post_users_ix1_inserts:
  assumes "get (body rq) ''_id'' = JNull"
  shows "\<exists>d i. post_users_ix1 s rq = (Send 200 (InsertResult i), s\<lparr>users := users s @ [d]\<rparr>) \<and>
               fld d ''role'' = JStr ''admin'' \<and> fld d ''email'' = get (body rq) ''email''"
  using assms by (auto simp: post_users_ix1_def insertOne_def get_def fld_upd)

lemma post_users_existing:
  assumes "h \<in> {post_users_p0, post_users_ix2}"
      and "findOne [(''email'', get (body rq) ''email'')] (users s) = Some u"
  shows "h s rq = (Send 200 (Message ''User already exists''), s)"
  using assms by (auto simp: post_users_p0_def post_users_ix2_def)

lemma profile_update_email:
  "map (\<lambda>d. fld d ''email'') (users (snd (profile_update s email rq))) = map (\<lambda>d. fld d ''email'') (users s)"
proof -
  let ?u = "filter (\<lambda>(k, v). k \<noteq> ''_id'' \<and> k \<noteq> ''email'') (body rq)"
  have "map_of ?u ''email'' = None"
    using map_of_filter_keys[of "\<lambda>k. k \<noteq> ''_id'' \<and> k \<noteq> ''email''" "body rq" "''email''"] by simp
  from updateOne_keeps_field[OF this, of "[(''email'', JStr email)]" "users s"]
  show ?thesis by (auto simp: profile_update_def split: prod.splits)
qed

lemma guarded_frame:
  assumes "\<And>email. f (snd (h s email rq)) = f s"
  shows "f (snd (guarded g h s rq)) = f s"
  using assms by (simp add: guarded_def split: sum.splits option.splits)

lemma authenticated_frame:
  assumes "\<And>email. f (snd (h s email rq)) = f s"
  shows "f (snd (authenticated h s rq)) = f s"
  using assms by (simp add: authenticated_def split: sum.splits option.splits)

lemma user_updates_keep_email:
  assumes "g \<in> {patch_profile_p0, patch_update_user_status_p0, patch_users_make_volunteer_id_p0}"
  shows "map (\<lambda>d. fld d ''email'') (users (snd (g s rq))) = map (\<lambda>d. fld d ''email'') (users s)"
proof -
  have p: "map (\<lambda>d. fld d ''email'') (users (snd (patch_profile_p0 s rq))) = map (\<lambda>d. fld d ''email'') (users s)"
    unfolding patch_profile_p0_def
    by (rule authenticated_frame[where f = "\<lambda>s. map (\<lambda>d. fld d ''email'') (users s)"])
       (rule profile_update_email)
  have st: "map (\<lambda>d. fld d ''email'') (users (snd (patch_update_user_status_p0 s rq))) = map (\<lambda>d. fld d ''email'') (users s)"
    unfolding patch_update_user_status_p0_def
    apply (rule guarded_frame[where f = "\<lambda>s. map (\<lambda>d. fld d ''email'') (users s)"])
    using updateOne_keeps_field[of "[(''status'', qval rq ''status'')]" "''email''" "[(''email'', qval rq ''email'')]" "users s"]
    by (auto split: prod.splits)
  have v: "map (\<lambda>d. fld d ''email'') (users (snd (patch_users_make_volunteer_id_p0 s rq))) = map (\<lambda>d. fld d ''email'') (users s)"
    unfolding patch_users_make_volunteer_id_p0_def
    apply (rule guarded_frame[where f = "\<lambda>s. map (\<lambda>d. fld d ''email'') (users s)"])
    subgoal for email
      using updateOne_keeps_field[of "[(''role'', JStr ''volunteer'')]" "''email''" "[(''_id'', JId (the (params_id rq)))]" "users s"]
      by (auto split: prod.splits option.splits)
    done
  from assms p st v show ?thesis by auto
qed

text \<open>
  Calls of \<open>POST /users\<close> that follow one another, in part_000 and in the second index.js
  snapshot: emails that are pairwise different stay pairwise different, and the profile
  edit, the status update and the promotion to volunteer of part_000 change no stored
  email.
\<close>

lemma create_user_sequential:
  assumes "h \<in> {post_users_p0, post_users_ix2}"
  shows "(case findOne [(''email'', get (body rq) ''email'')] (users s) of
            Some u \<Rightarrow> h s rq = (Send 200 (Message ''User already exists''), s)
          | None \<Rightarrow>
              h s rq = (NoReply, s) \<and> get (body rq) ''_id'' \<noteq> JNull \<or>
              (\<exists>d i. h s rq = (Send 200 (InsertResult i), s\<lparr>users := users s @ [d]\<rparr>) \<and>
                     fld d ''role'' = JStr ''donor'' \<and> fld d ''status'' = JStr ''active'' \<and>
                     fld d ''email'' = get (body rq) ''email''))
       \<and> (distinct (map (\<lambda>d. fld d ''email'') (users s)) \<longrightarrow>
            distinct (map (\<lambda>d. fld d ''email'') (users (snd (h s rq)))))
       \<and> (\<forall>g \<in> {patch_profile_p0, patch_update_user_status_p0, patch_users_make_volunteer_id_p0}.
            map (\<lambda>d. fld d ''email'') (users (snd (g s rq))) = map (\<lambda>d. fld d ''email'') (users s))"
proof -
  let ?q = "[(''email'', get (body rq) ''email'')]"
  have new: "findOne ?q (users s) = None \<Longrightarrow>
       h s rq = (NoReply, s) \<and> get (body rq) ''_id'' \<noteq> JNull \<or>
       (\<exists>d i. h s rq = (Send 200 (InsertResult i), s\<lparr>users := users s @ [d]\<rparr>) \<and>
              fld d ''role'' = JStr ''donor'' \<and> fld d ''status'' = JStr ''active'' \<and>
              fld d ''email'' = get (body rq) ''email'')"
    using assms post_users_p0_new[of rq s] post_users_ix2_new[of rq s] by auto
  have first: "case findOne ?q (users s) of
            Some u \<Rightarrow> h s rq = (Send 200 (Message ''User already exists''), s)
          | None \<Rightarrow>
              h s rq = (NoReply, s) \<and> get (body rq) ''_id'' \<noteq> JNull \<or>
              (\<exists>d i. h s rq = (Send 200 (InsertResult i), s\<lparr>users := users s @ [d]\<rparr>) \<and>
                     fld d ''role'' = JStr ''donor'' \<and> fld d ''status'' = JStr ''active'' \<and>
                     fld d ''email'' = get (body rq) ''email'')"
  proof (cases "findOne ?q (users s)")
    case None
    with new show ?thesis by simp
  next
    case (Some u)
    with post_users_existing[OF assms Some] show ?thesis by simp
  qed
  have inv: "distinct (map (\<lambda>d. fld d ''email'') (users s)) \<longrightarrow>
            distinct (map (\<lambda>d. fld d ''email'') (users (snd (h s rq))))"
  proof
    assume dist: "distinct (map (\<lambda>d. fld d ''email'') (users s))"
    show "distinct (map (\<lambda>d. fld d ''email'') (users (snd (h s rq))))"
    proof (cases "findOne ?q (users s)")
      case (Some u)
      with post_users_existing[OF assms Some] dist show ?thesis by simp
    next
      case None
      then have fresh: "get (body rq) ''email'' \<notin> set (map (\<lambda>d. fld d ''email'') (users s))"
        using findOne_single_None[of "''email''" "get (body rq) ''email''" "users s"] by blast
      from new[OF None] show ?thesis
      proof
        assume "h s rq = (NoReply, s) \<and> get (body rq) ''_id'' \<noteq> JNull"
        with dist show ?thesis by simp
      next
        assume "\<exists>d i. h s rq = (Send 200 (InsertResult i), s\<lparr>users := users s @ [d]\<rparr>) \<and>
              fld d ''role'' = JStr ''donor'' \<and> fld d ''status'' = JStr ''active'' \<and>
              fld d ''email'' = get (body rq) ''email''"
        then obtain d i where "h s rq = (Send 200 (InsertResult i), s\<lparr>users := users s @ [d]\<rparr>)"
          and "fld d ''email'' = get (body rq) ''email''" by blast
        with dist fresh show ?thesis by simp
      qed
    qed
  qed
  from first inv user_updates_keep_email show ?thesis by blast
qed

lemma post_users_ix1_result:
  "post_users_ix1 s rq = (NoReply, s) \<and> get (body rq) ''_id'' \<noteq> JNull \<or>
   (\<exists>d i. post_users_ix1 s rq = (Send 200 (InsertResult i), s\<lparr>users := users s @ [d]\<rparr>) \<and>
          fld d ''role'' = JStr ''admin'' \<and> fld d ''status'' = JStr ''active'' \<and>
          fld d ''email'' = get (body rq) ''email'')"
proof -
  let ?d = "(map_of (body rq))(''createdAt'' \<mapsto> JDate (clock rq), ''role'' \<mapsto> JStr ''admin'',
                     ''status'' \<mapsto> JStr ''active'')"
  have id: "fld ?d ''_id'' = get (body rq) ''_id''" by (simp add: fld_upd get_def)
  from insertOne_result[of ?d "users s"] show ?thesis
  proof
    assume "insertOne ?d (users s) = Inl DuplicateKey \<and> fld ?d ''_id'' \<noteq> JNull"
    with id show ?thesis by (simp add: post_users_ix1_def)
  next
    assume "\<exists>i e. insertOne ?d (users s) = Inr (i, users s @ [e]) \<and>
               (\<forall>k. k \<noteq> ''_id'' \<longrightarrow> fld e k = fld ?d k)"
    then obtain i e where ins: "insertOne ?d (users s) = Inr (i, users s @ [e])"
      and same: "\<forall>k. k \<noteq> ''_id'' \<longrightarrow> fld e k = fld ?d k" by blast
    from same have "fld e ''role'' = JStr ''admin''" "fld e ''status'' = JStr ''active''"
      "fld e ''email'' = get (body rq) ''email''" by (simp_all add: fld_upd get_def)
    with ins show ?thesis by (auto simp: post_users_ix1_def)
  qed
qed

text \<open>
  Claim C5, as the code has it. In part_000 and in the second index.js snapshot
  \<open>POST /users\<close> looks the body's email up first. When the lookup finds a user with that
  email, nothing is inserted and the reply is the message \<open>User already exists\<close>.
  Otherwise the body is stored as a new user with role \<open>donor\<close> and status \<open>active\<close>,
  whatever role or status the body carried; the one exception is a body that brings an
  \<open>_id\<close> the store refuses, which stores nothing. The first index.js snapshot has no
  lookup: with the same exception it stores every body as a new user, with role \<open>admin\<close>
  and status \<open>active\<close>, whether or not the email is already stored.
\<close>

theorem create_user:
  assumes "h \<in> {post_users_p0, post_users_ix2}"
  shows "(case findOne [(''email'', get (body rq) ''email'')] (users s) of
            Some u \<Rightarrow> h s rq = (Send 200 (Message ''User already exists''), s)
          | None \<Rightarrow>
              h s rq = (NoReply, s) \<and> get (body rq) ''_id'' \<noteq> JNull \<or>
              (\<exists>d i. h s rq = (Send 200 (InsertResult i), s\<lparr>users := users s @ [d]\<rparr>) \<and>
                     fld d ''role'' = JStr ''donor'' \<and> fld d ''status'' = JStr ''active'' \<and>
                     fld d ''email'' = get (body rq) ''email''))
       \<and> (post_users_ix1 s rq = (NoReply, s) \<and> get (body rq) ''_id'' \<noteq> JNull \<or>
            (\<exists>d i. post_users_ix1 s rq = (Send 200 (InsertResult i), s\<lparr>users := users s @ [d]\<rparr>) \<and>
                   fld d ''role'' = JStr ''admin'' \<and> fld d ''status'' = JStr ''active'' \<and>
                   fld d ''email'' = get (body rq) ''email''))"
proof -
  have first: "case findOne [(''email'', get (body rq) ''email'')] (users s) of
            Some u \<Rightarrow> h s rq = (Send 200 (Message ''User already exists''), s)
          | None \<Rightarrow>
              h s rq = (NoReply, s) \<and> get (body rq) ''_id'' \<noteq> JNull \<or>
              (\<exists>d i. h s rq = (Send 200 (InsertResult i), s\<lparr>users := users s @ [d]\<rparr>) \<and>
                     fld d ''role'' = JStr ''donor'' \<and> fld d ''status'' = JStr ''active'' \<and>
                     fld d ''email'' = get (body rq) ''email'')"
  proof (cases "findOne [(''email'', get (body rq) ''email'')] (users s)")
    case None
    with assms post_users_p0_new[OF None] post_users_ix2_new[OF None] show ?thesis by auto
  next
    case (Some u)
    with post_users_existing[OF assms Some] show ?thesis by simp
  qed
  with post_users_ix1_result[of s rq] show ?thesis by blast
qed

theorem create_user_witness:
  "post_users_p0 \<in> {post_users_p0, post_users_ix2}
   \<and> map (\<lambda>d. (fld d ''email'', fld d ''role'', fld d ''status''))
        (users (snd (post_users_p0 
        \<lparr>users = [map_of [(''email'', JStr ''a@x''), (''role'', JStr ''donor''),
                            (''status'', JStr ''active'')]],
          requests = [], payments = []\<rparr> 
        \<lparr>authorization = NoHeader, params_id = None, query = Map.empty, page_number = None,
          size_number = None, body = [(''email'', JStr ''b@x''), (''role'', JStr ''admin'')],
          clock = 3, retrieved = None\<rparr>)))
      = [(JStr ''a@x'', JStr ''donor'', JStr ''active''), (JStr ''b@x'', JStr ''donor'', JStr ''active'')]
   \<and> map (\<lambda>d. (fld d ''email'', fld d ''role'', fld d ''status''))
        (users (snd (post_users_ix1 
        \<lparr>users = [map_of [(''email'', JStr ''a@x''), (''role'', JStr ''donor''),
                            (''status'', JStr ''active'')]],
          requests = [], payments = []\<rparr> 
        \<lparr>authorization = NoHeader, params_id = None, query = Map.empty, page_number = None,
          size_number = None, body = [(''email'', JStr ''b@x''), (''role'', JStr ''admin'')],
          clock = 3, retrieved = None\<rparr>)))
      = [(JStr ''a@x'', JStr ''donor'', JStr ''active''), (JStr ''b@x'', JStr ''admin'', JStr ''active'')]"
  using create_user[where h = post_users_p0 and s = "
        \<lparr>users = [map_of [(''email'', JStr ''a@x''), (''role'', JStr ''donor''),
                            (''status'', JStr ''active'')]],
          requests = [], payments = []\<rparr>" and rq = "
        \<lparr>authorization = NoHeader, params_id = None, query = Map.empty, page_number = None,
          size_number = None, body = [(''email'', JStr ''b@x''), (''role'', JStr ''admin'')],
          clock = 3, retrieved = None\<rparr>"]
  by (simp add: post_users_p0_def post_users_ix1_def findOne_def matches_def insertOne_def get_def
      fld_eval fld_empty)

text \<open>
  Claim C5 as stated fails in three points. On a duplicate, part_000 replies with the
  message, not with the stored record. The first index.js snapshot stores the duplicate,
  with role \<open>admin\<close>, so two users share the email a. And in part_000 two calls with the
  email b that both run their lookup (steps 0 and 1) before either runs its insert (steps
  0 and 1 again) are both stored.
\<close>

theorem create_user_counterexample:
  "findOne [(''email'', JStr ''a@x'')] (users 
        \<lparr>users = [map_of [(''email'', JStr ''a@x''), (''role'', JStr ''donor''),
                            (''status'', JStr ''active'')]],
          requests = [], payments = []\<rparr>) = Some (map_of [(''email'', JStr ''a@x''), (''role'', JStr ''donor''), (''status'', JStr ''active'')])
   \<and> fst (post_users_p0 
        \<lparr>users = [map_of [(''email'', JStr ''a@x''), (''role'', JStr ''donor''),
                            (''status'', JStr ''active'')]],
          requests = [], payments = []\<rparr> 
        \<lparr>authorization = NoHeader, params_id = None, query = Map.empty, page_number = None,
          size_number = None, body = [(''email'', JStr ''a@x'')],
          clock = 3, retrieved = None\<rparr>) = Send 200 (Message ''User already exists'')
   \<and> fst (post_users_p0 
        \<lparr>users = [map_of [(''email'', JStr ''a@x''), (''role'', JStr ''donor''),
                            (''status'', JStr ''active'')]],
          requests = [], payments = []\<rparr> 
        \<lparr>authorization = NoHeader, params_id = None, query = Map.empty, page_number = None,
          size_number = None, body = [(''email'', JStr ''a@x'')],
          clock = 3, retrieved = None\<rparr>) \<noteq> Send 200 (OneDoc (map_of [(''email'', JStr ''a@x''), (''role'', JStr ''donor''), (''status'', JStr ''active'')]))
   \<and> map (\<lambda>d. (fld d ''email'', fld d ''role''))
        (users (snd (post_users_ix1 
        \<lparr>users = [map_of [(''email'', JStr ''a@x''), (''role'', JStr ''donor''),
                            (''status'', JStr ''active'')]],
          requests = [], payments = []\<rparr> 
        \<lparr>authorization = NoHeader, params_id = None, query = Map.empty, page_number = None,
          size_number = None, body = [(''email'', JStr ''a@x'')],
          clock = 3, retrieved = None\<rparr>)))
      = [(JStr ''a@x'', JStr ''donor''), (JStr ''a@x'', JStr ''admin'')]
   \<and> map (\<lambda>d. fld d ''email'')
        (users (fst (interleave (lookup_insert_step post_users_lookup_p0 post_users_insert_p0)
           [0, 1, 0, 1] 
        \<lparr>users = [map_of [(''email'', JStr ''a@x''), (''role'', JStr ''donor''),
                            (''status'', JStr ''active'')]],
          requests = [], payments = []\<rparr>
           [(
        \<lparr>authorization = NoHeader, params_id = None, query = Map.empty, page_number = None,
          size_number = None, body = [(''email'', JStr ''b@x'')],
          clock = 5, retrieved = None\<rparr>, Before),
            (
        \<lparr>authorization = NoHeader, params_id = None, query = Map.empty, page_number = None,
          size_number = None, body = [(''email'', JStr ''b@x'')],
          clock = 6, retrieved = None\<rparr>, Before)])))
      = [JStr ''a@x'', JStr ''b@x'', JStr ''b@x'']"
  by (simp add: post_users_p0_def post_users_ix1_def post_users_lookup_p0_def
      post_users_insert_p0_def lookup_insert_step_def findOne_def matches_def insertOne_def
      get_def fld_eval fld_empty next_id_def oids_def)

section \<open>The requester's status update\<close>

lemma updateOne_cases:
  "(case findOne q c of
      None \<Rightarrow> updateOne q u c = ((0, 0), c)
    | Some d \<Rightarrow>
        \<exists>pre post. c = pre @ d # post \<and> (\<forall>x\<in>set pre. \<not> matches q x) \<and> matches q d \<and>
          updateOne q u c = ((1, if modifies u d then 1 else 0), pre @ set_fields u d # post))"
proof (cases "findOne q c")
  case None
  then show ?thesis by (simp add: updateOne_no_match)
next
  case (Some d)
  from findOne_Some_split[OF Some] obtain pre post where
    c: "c = pre @ d # post" and pre: "findOne q pre = None" and m: "matches q d" by blast
  from updateOne_at[OF pre m, of u post] c pre m
  have "c = pre @ d # post \<and> (\<forall>x\<in>set pre. \<not> matches q x) \<and> matches q d \<and>
          updateOne q u c = ((1, if modifies u d then 1 else 0), pre @ set_fields u d # post)"
    by (simp add: findOne_None)
  then have "\<exists>pre post. c = pre @ d # post \<and> (\<forall>x\<in>set pre. \<not> matches q x) \<and> matches q d \<and>
          updateOne q u c = ((1, if modifies u d then 1 else 0), pre @ set_fields u d # post)"
    by blast
  with Some show ?thesis by simp
qed

lemma modifies_single: "modifies [(k, v)] d = (d k \<noteq> Some v)"
  by (simp add: modifies_def)

lemma fld_JStr: "fld d k = JStr x \<Longrightarrow> d k = Some (JStr x)"
  by (auto simp: fld_def split: option.splits)

text \<open>
  Claim C3, as the code has it. In the second index.js snapshot \<open>PATCH /requests/status/:id\<close>
  refuses a status other than \<open>done\<close> and \<open>canceled\<close> with 400 before it touches the store.
  Otherwise it updates the first request that has the id of the path, the trimmed caller
  email as requester and the status \<open>inprogress\<close>: that request gets the new status and
  nothing else changes. When no request meets all three conditions the reply carries
  \<open>matchedCount\<close> 0 (with HTTP status 200) and the store is unchanged.

  In part_000 the route sits behind the donor guard, and the update is conditioned on the
  id and the requester only: a rejected caller changes nothing, no match gives
  \<open>matchedCount\<close> 0 and an unchanged store, and a match gets whatever status the body
  carries, from any current status.
\<close>

theorem requester_status_update:
  assumes "authorization rq = Token email" and "params_id rq = Some i"
  shows "(get (body rq) ''status'' \<notin> {JStr ''done'', JStr ''canceled''} \<longrightarrow>
            patch_requests_status_id_ix2 s rq = (Send 400 (Message ''Invalid status''), s))
       \<and> (get (body rq) ''status'' \<in> {JStr ''done'', JStr ''canceled''} \<longrightarrow>
            (case List.find (\<lambda>d. fld d ''_id'' = JId i \<and> fld d ''requesterEmail'' = JStr (trim email) \<and>
                                 fld d ''status'' = JStr ''inprogress'') (requests s) of
               None \<Rightarrow> patch_requests_status_id_ix2 s rq = (Send 200 (UpdateResult 0 0), s)
             | Some d \<Rightarrow>
                 \<exists>pre post. requests s = pre @ d # post \<and>
                   patch_requests_status_id_ix2 s rq =
                     (Send 200 (UpdateResult 1 1),
                      s\<lparr>requests := pre @ set_fields [(''status'', get (body rq) ''status'')] d # post\<rparr>)))
       \<and> (verifyDonor s email \<noteq> None \<longrightarrow> snd (patch_requests_status_id_p0 s rq) = s)
       \<and> (verifyDonor s email = None \<longrightarrow>
            (case List.find (\<lambda>d. fld d ''_id'' = JId i \<and> fld d ''requesterEmail'' = JStr email)
                    (requests s) of
               None \<Rightarrow> patch_requests_status_id_p0 s rq = (Send 200 (UpdateResult 0 0), s)
             | Some d \<Rightarrow>
                 \<exists>pre post. requests s = pre @ d # post \<and>
                   patch_requests_status_id_p0 s rq =
                     (Send 200 (UpdateResult 1 (if d ''status'' = Some (get (body rq) ''status'') then 0 else 1)),
                      s\<lparr>requests := pre @ set_fields [(''status'', get (body rq) ''status'')] d # post\<rparr>)))"
proof -
  let ?q3 = "[(''_id'', JId i), (''requesterEmail'', JStr (trim email)), (''status'', JStr ''inprogress'')]"
  let ?q2 = "[(''_id'', JId i), (''requesterEmail'', JStr email)]"
  let ?u = "[(''status'', get (body rq) ''status'')]"
  have m3: "matches ?q3 = (\<lambda>d. fld d ''_id'' = JId i \<and> fld d ''requesterEmail'' = JStr (trim email) \<and>
                                 fld d ''status'' = JStr ''inprogress'')"
    by (rule ext) (simp add: matches_def)
  have m2: "matches ?q2 = (\<lambda>d. fld d ''_id'' = JId i \<and> fld d ''requesterEmail'' = JStr email)"
    by (rule ext) (simp add: matches_def)
  have bad: "get (body rq) ''status'' \<notin> {JStr ''done'', JStr ''canceled''} \<longrightarrow>
            patch_requests_status_id_ix2 s rq = (Send 400 (Message ''Invalid status''), s)"
    using assms by (simp add: patch_requests_status_id_ix2_def authenticated_def verifyFBToken_def)
  have ix2: "get (body rq) ''status'' \<in> {JStr ''done'', JStr ''canceled''} \<Longrightarrow>
      patch_requests_status_id_ix2 s rq =
        (Send 200 (UpdateResult (fst (fst (updateOne ?q3 ?u (requests s)))) (snd (fst (updateOne ?q3 ?u (requests s))))),
         s\<lparr>requests := snd (updateOne ?q3 ?u (requests s))\<rparr>)"
    using assms
    by (auto simp: patch_requests_status_id_ix2_def authenticated_def verifyFBToken_def split: prod.splits)
  have good: "get (body rq) ''status'' \<in> {JStr ''done'', JStr ''canceled''} \<longrightarrow>
            (case List.find (\<lambda>d. fld d ''_id'' = JId i \<and> fld d ''requesterEmail'' = JStr (trim email) \<and>
                                 fld d ''status'' = JStr ''inprogress'') (requests s) of
               None \<Rightarrow> patch_requests_status_id_ix2 s rq = (Send 200 (UpdateResult 0 0), s)
             | Some d \<Rightarrow>
                 \<exists>pre post. requests s = pre @ d # post \<and>
                   patch_requests_status_id_ix2 s rq =
                     (Send 200 (UpdateResult 1 1),
                      s\<lparr>requests := pre @ set_fields ?u d # post\<rparr>))"
  proof
    assume st: "get (body rq) ''status'' \<in> {JStr ''done'', JStr ''canceled''}"
    show "case List.find (\<lambda>d. fld d ''_id'' = JId i \<and> fld d ''requesterEmail'' = JStr (trim email) \<and>
                                 fld d ''status'' = JStr ''inprogress'') (requests s) of
               None \<Rightarrow> patch_requests_status_id_ix2 s rq = (Send 200 (UpdateResult 0 0), s)
             | Some d \<Rightarrow>
                 \<exists>pre post. requests s = pre @ d # post \<and>
                   patch_requests_status_id_ix2 s rq =
                     (Send 200 (UpdateResult 1 1),
                      s\<lparr>requests := pre @ set_fields ?u d # post\<rparr>)"
    proof (cases "findOne ?q3 (requests s)")
      case None
      with updateOne_cases[where q = ?q3 and c = "requests s" and u = ?u] ix2[OF st] show ?thesis
        by (simp add: findOne_def m3)
    next
      case (Some d)
      with updateOne_cases[where q = ?q3 and c = "requests s" and u = ?u] obtain pre post where
        c: "requests s = pre @ d # post" and md: "matches ?q3 d" and
        up: "updateOne ?q3 ?u (requests s) = ((1, if modifies ?u d then 1 else 0), pre @ set_fields ?u d # post)"
        by auto
      from md have "fld d ''status'' = JStr ''inprogress''" by (simp add: m3)
      then have "d ''status'' = Some (JStr ''inprogress'')" by (rule fld_JStr)
      with st have "modifies ?u d" by (auto simp: modifies_single)
      with up ix2[OF st] c have "requests s = pre @ d # post \<and>
                   patch_requests_status_id_ix2 s rq =
                     (Send 200 (UpdateResult 1 1),
                      s\<lparr>requests := pre @ set_fields ?u d # post\<rparr>)" by simp
      then have "\<exists>pre post. requests s = pre @ d # post \<and>
                   patch_requests_status_id_ix2 s rq =
                     (Send 200 (UpdateResult 1 1),
                      s\<lparr>requests := pre @ set_fields ?u d # post\<rparr>)" by blast
      with Some show ?thesis by (simp add: findOne_def m3)
    qed
  qed
  have rej: "verifyDonor s email \<noteq> None \<longrightarrow> snd (patch_requests_status_id_p0 s rq) = s"
    using assms by (auto simp: patch_requests_status_id_p0_def guarded_def verifyFBToken_def)
  have p0: "verifyDonor s email = None \<Longrightarrow>
      patch_requests_status_id_p0 s rq =
        (Send 200 (UpdateResult (fst (fst (updateOne ?q2 ?u (requests s)))) (snd (fst (updateOne ?q2 ?u (requests s))))),
         s\<lparr>requests := snd (updateOne ?q2 ?u (requests s))\<rparr>)"
    using assms
    by (auto simp: patch_requests_status_id_p0_def guarded_def verifyFBToken_def split: prod.splits)
  have pass: "verifyDonor s email = None \<longrightarrow>
            (case List.find (\<lambda>d. fld d ''_id'' = JId i \<and> fld d ''requesterEmail'' = JStr email)
                    (requests s) of
               None \<Rightarrow> patch_requests_status_id_p0 s rq = (Send 200 (UpdateResult 0 0), s)
             | Some d \<Rightarrow>
                 \<exists>pre post. requests s = pre @ d # post \<and>
                   patch_requests_status_id_p0 s rq =
                     (Send 200 (UpdateResult 1 (if d ''status'' = Some (get (body rq) ''status'') then 0 else 1)),
                      s\<lparr>requests := pre @ set_fields ?u d # post\<rparr>))"
  proof
    assume ok: "verifyDonor s email = None"
    show "case List.find (\<lambda>d. fld d ''_id'' = JId i \<and> fld d ''requesterEmail'' = JStr email)
                    (requests s) of
               None \<Rightarrow> patch_requests_status_id_p0 s rq = (Send 200 (UpdateResult 0 0), s)
             | Some d \<Rightarrow>
                 \<exists>pre post. requests s = pre @ d # post \<and>
                   patch_requests_status_id_p0 s rq =
                     (Send 200 (UpdateResult 1 (if d ''status'' = Some (get (body rq) ''status'') then 0 else 1)),
                      s\<lparr>requests := pre @ set_fields ?u d # post\<rparr>)"
    proof (cases "findOne ?q2 (requests s)")
      case None
      with updateOne_cases[where q = ?q2 and c = "requests s" and u = ?u] p0[OF ok] show ?thesis
        by (simp add: findOne_def m2)
    next
      case (Some d)
      with updateOne_cases[where q = ?q2 and c = "requests s" and u = ?u] obtain pre post where
        c: "requests s = pre @ d # post" and
        up: "updateOne ?q2 ?u (requests s) = ((1, if modifies ?u d then 1 else 0), pre @ set_fields ?u d # post)"
        by auto
      from up p0[OF ok] c have "requests s = pre @ d # post \<and>
                   patch_requests_status_id_p0 s rq =
                     (Send 200 (UpdateResult 1 (if d ''status'' = Some (get (body rq) ''status'') then 0 else 1)),
                      s\<lparr>requests := pre @ set_fields ?u d # post\<rparr>)"
        by (simp add: modifies_single)
      then have "\<exists>pre post. requests s = pre @ d # post \<and>
                   patch_requests_status_id_p0 s rq =
                     (Send 200 (UpdateResult 1 (if d ''status'' = Some (get (body rq) ''status'') then 0 else 1)),
                      s\<lparr>requests := pre @ set_fields ?u d # post\<rparr>)" by blast
      with Some show ?thesis by (simp add: findOne_def m2)
    qed
  qed
  from bad good rej pass show ?thesis by blast
qed

theorem requester_status_update_witness:
  "authorization 
        \<lparr>authorization = Token ''o@x'', params_id = Some 1, query = Map.empty, page_number = None,
          size_number = None, body = [(''status'', JStr ''done'')], clock = 4, retrieved = None\<rparr> = Token ''o@x'' \<and> params_id 
        \<lparr>authorization = Token ''o@x'', params_id = Some 1, query = Map.empty, page_number = None,
          size_number = None, body = [(''status'', JStr ''done'')], clock = 4, retrieved = None\<rparr> = Some 1
   \<and> fst (patch_requests_status_id_ix2 
        \<lparr>users = [map_of [(''email'', JStr ''o@x''), (''role'', JStr ''donor''), (''status'', JStr ''active'')]],
          requests = [map_of [(''_id'', JId 1), (''requesterEmail'', JStr ''o@x''), (''status'', JStr ''inprogress'')]],
          payments = []\<rparr> 
        \<lparr>authorization = Token ''o@x'', params_id = Some 1, query = Map.empty, page_number = None,
          size_number = None, body = [(''status'', JStr ''done'')], clock = 4, retrieved = None\<rparr>) = Send 200 (UpdateResult 1 1)
   \<and> map (\<lambda>d. fld d ''status'') (requests (snd (patch_requests_status_id_ix2 
        \<lparr>users = [map_of [(''email'', JStr ''o@x''), (''role'', JStr ''donor''), (''status'', JStr ''active'')]],
          requests = [map_of [(''_id'', JId 1), (''requesterEmail'', JStr ''o@x''), (''status'', JStr ''inprogress'')]],
          payments = []\<rparr> 
        \<lparr>authorization = Token ''o@x'', params_id = Some 1, query = Map.empty, page_number = None,
          size_number = None, body = [(''status'', JStr ''done'')], clock = 4, retrieved = None\<rparr>))) = [JStr ''done'']
   \<and> authorization 
        \<lparr>authorization = Token ''z@x'', params_id = Some 1, query = Map.empty, page_number = None,
          size_number = None, body = [(''status'', JStr ''done'')], clock = 4, retrieved = None\<rparr> = Token ''z@x'' \<and> params_id 
        \<lparr>authorization = Token ''z@x'', params_id = Some 1, query = Map.empty, page_number = None,
          size_number = None, body = [(''status'', JStr ''done'')], clock = 4, retrieved = None\<rparr> = Some 1
   \<and> patch_requests_status_id_ix2 
        \<lparr>users = [map_of [(''email'', JStr ''o@x''), (''role'', JStr ''donor''), (''status'', JStr ''active'')]],
          requests = [map_of [(''_id'', JId 1), (''requesterEmail'', JStr ''o@x''), (''status'', JStr ''inprogress'')]],
          payments = []\<rparr> 
        \<lparr>authorization = Token ''z@x'', params_id = Some 1, query = Map.empty, page_number = None,
          size_number = None, body = [(''status'', JStr ''done'')], clock = 4, retrieved = None\<rparr> = (Send 200 (UpdateResult 0 0), 
        \<lparr>users = [map_of [(''email'', JStr ''o@x''), (''role'', JStr ''donor''), (''status'', JStr ''active'')]],
          requests = [map_of [(''_id'', JId 1), (''requesterEmail'', JStr ''o@x''), (''status'', JStr ''inprogress'')]],
          payments = []\<rparr>)
   \<and> patch_requests_status_id_ix2 
        \<lparr>users = [map_of [(''email'', JStr ''o@x''), (''role'', JStr ''donor''), (''status'', JStr ''active'')]],
          requests = [map_of [(''_id'', JId 1), (''requesterEmail'', JStr ''o@x''), (''status'', JStr ''pending'')]],
          payments = []\<rparr> 
        \<lparr>authorization = Token ''o@x'', params_id = Some 1, query = Map.empty, page_number = None,
          size_number = None, body = [(''status'', JStr ''done'')], clock = 4, retrieved = None\<rparr> = (Send 200 (UpdateResult 0 0), 
        \<lparr>users = [map_of [(''email'', JStr ''o@x''), (''role'', JStr ''donor''), (''status'', JStr ''active'')]],
          requests = [map_of [(''_id'', JId 1), (''requesterEmail'', JStr ''o@x''), (''status'', JStr ''pending'')]],
          payments = []\<rparr>)"
proof -
  have a: "authorization 
        \<lparr>authorization = Token ''o@x'', params_id = Some 1, query = Map.empty, page_number = None,
          size_number = None, body = [(''status'', JStr ''done'')], clock = 4, retrieved = None\<rparr> = Token ''o@x''" and b: "params_id 
        \<lparr>authorization = Token ''o@x'', params_id = Some 1, query = Map.empty, page_number = None,
          size_number = None, body = [(''status'', JStr ''done'')], clock = 4, retrieved = None\<rparr> = Some 1"
    and c: "authorization 
        \<lparr>authorization = Token ''z@x'', params_id = Some 1, query = Map.empty, page_number = None,
          size_number = None, body = [(''status'', JStr ''done'')], clock = 4, retrieved = None\<rparr> = Token ''z@x''" and d: "params_id 
        \<lparr>authorization = Token ''z@x'', params_id = Some 1, query = Map.empty, page_number = None,
          size_number = None, body = [(''status'', JStr ''done'')], clock = 4, retrieved = None\<rparr> = Some 1"
    by simp_all
  from requester_status_update[OF a b, where s = "
        \<lparr>users = [map_of [(''email'', JStr ''o@x''), (''role'', JStr ''donor''), (''status'', JStr ''active'')]],
          requests = [map_of [(''_id'', JId 1), (''requesterEmail'', JStr ''o@x''), (''status'', JStr ''inprogress'')]],
          payments = []\<rparr>"]
    requester_status_update[OF c d, where s = "
        \<lparr>users = [map_of [(''email'', JStr ''o@x''), (''role'', JStr ''donor''), (''status'', JStr ''active'')]],
          requests = [map_of [(''_id'', JId 1), (''requesterEmail'', JStr ''o@x''), (''status'', JStr ''inprogress'')]],
          payments = []\<rparr>"]
    requester_status_update[OF a b, where s = "
        \<lparr>users = [map_of [(''email'', JStr ''o@x''), (''role'', JStr ''donor''), (''status'', JStr ''active'')]],
          requests = [map_of [(''_id'', JId 1), (''requesterEmail'', JStr ''o@x''), (''status'', JStr ''pending'')]],
          payments = []\<rparr>"]
  show ?thesis
    by (simp add: patch_requests_status_id_ix2_def authenticated_def verifyFBToken_def get_def
        fld_eval fld_empty matches_def modifies_def set_fields_def trim_def white_space_def strip.simps)
qed

text \<open>
  Claim C3 as stated fails on part_000: the requester of a request that is still
  \<open>pending\<close> sets it to \<open>done\<close>.
\<close>

theorem requester_status_update_counterexample:
  "map (\<lambda>d. fld d ''status'') (requests 
        \<lparr>users = [map_of [(''email'', JStr ''o@x''), (''role'', JStr ''donor''), (''status'', JStr ''active'')]],
          requests = [map_of [(''_id'', JId 1), (''requesterEmail'', JStr ''o@x''), (''status'', JStr ''pending'')]],
          payments = []\<rparr>) = [JStr ''pending'']
   \<and> fst (patch_requests_status_id_p0 
        \<lparr>users = [map_of [(''email'', JStr ''o@x''), (''role'', JStr ''donor''), (''status'', JStr ''active'')]],
          requests = [map_of [(''_id'', JId 1), (''requesterEmail'', JStr ''o@x''), (''status'', JStr ''pending'')]],
          payments = []\<rparr> 
        \<lparr>authorization = Token ''o@x'', params_id = Some 1, query = Map.empty, page_number = None,
          size_number = None, body = [(''status'', JStr ''done'')], clock = 4, retrieved = None\<rparr>) = Send 200 (UpdateResult 1 1)
   \<and> map (\<lambda>d. fld d ''status'') (requests (snd (patch_requests_status_id_p0 
        \<lparr>users = [map_of [(''email'', JStr ''o@x''), (''role'', JStr ''donor''), (''status'', JStr ''active'')]],
          requests = [map_of [(''_id'', JId 1), (''requesterEmail'', JStr ''o@x''), (''status'', JStr ''pending'')]],
          payments = []\<rparr> 
        \<lparr>authorization = Token ''o@x'', params_id = Some 1, query = Map.empty, page_number = None,
          size_number = None, body = [(''status'', JStr ''done'')], clock = 4, retrieved = None\<rparr>))) = [JStr ''done'']"
  by (simp add: patch_requests_status_id_p0_def guarded_def verifyFBToken_def verifyDonor_def
      findOne_def get_def fld_eval fld_empty matches_def modifies_def set_fields_def)

section \<open>Paged lists\<close>

lemma mset_sort_created_desc: "mset (sort_created_desc c) = mset c"
  by (simp add: sort_created_desc_def)

lemma sorted_sort_created_desc: "sorted_wrt (\<lambda>a b. created b \<le> created a) (sort_created_desc c)"
proof -
  have "sorted (map (\<lambda>d. - created d) (sort_created_desc c))"
    by (simp add: sort_created_desc_def)
  then show ?thesis by (simp add: sorted_wrt_map)
qed

lemma or_default_ge:
  assumes "\<forall>v. n = Some v \<longrightarrow> 0 \<le> v" and "1 \<le> d"
  shows "1 \<le> or_default n d"
  using assms by (cases n) (auto simp: or_default_def)

lemma skip_limit_window:
  assumes "1 \<le> p" and "1 \<le> n"
  shows "skip_limit (n * (p - 1)) n c = Some (take (nat n) (drop (nat (n * (p - 1))) c))"
proof -
  from assms have "0 \<le> n * (p - 1)" by simp
  then have "\<not> n * (p - 1) < 0" by linarith
  with assms show ?thesis by (simp add: skip_limit_def limit_docs_def)
qed

lemma matches_single_fun: "matches [(k, v)] = (\<lambda>d. fld d k = v)"
  by (rule ext) (simp add: matches_def)

lemma matches_Nil_fun: "matches [] = (\<lambda>d. True)"
  by (rule ext) (simp add: matches_def)

lemma find_docs_single: "find_docs [(k, v)] c = filter (\<lambda>d. fld d k = v) c"
  by (simp add: find_docs_def matches_single_fun)

lemma countDocuments_single: "countDocuments [(k, v)] c = length (filter (\<lambda>d. fld d k = v) c)"
  by (simp add: countDocuments_def matches_single_fun)

lemma find_docs_all: "find_docs [] c = c"
  by (simp add: find_docs_def matches_Nil_fun)

lemma countDocuments_all: "countDocuments [] c = length c"
  by (simp add: countDocuments_def matches_Nil_fun)

text \<open>
  Claim C7, as the code has it. With a page and a size that are not negative (absent,
  non-numeric or zero gives the default: page 1, size 10, or size 3 in the second index.js
  snapshot), the paged lists of part_000 (\<open>GET /my-requests\<close> behind the donor guard,
  \<open>GET /admin/requests\<close> behind the admin guard) and of the second index.js snapshot
  return the filtered requests sorted by creation time descending, without the first
  size * (page - 1) of them and cut to size, and a total that is the number of all
  requests under the same filter. The first index.js snapshot returns the same window and
  the same total, but of the filtered requests in stored order: it does not sort.
\<close>

theorem paged_list:
  assumes auth: "authorization rq = Token email"
      and page: "\<forall>v. page_number rq = Some v \<longrightarrow> 0 \<le> v"
      and size: "\<forall>v. size_number rq = Some v \<longrightarrow> 0 \<le> v"
  shows "(verifyDonor s email = None \<longrightarrow>
            (\<exists>L. mset L = mset (filter (\<lambda>d. fld d ''requesterEmail'' = JStr email) (requests s)) \<and>
                 sorted_wrt (\<lambda>a b. created b \<le> created a) L \<and>
                 get_my_requests_p0 s rq =
                   (Send 200 (Page
                      (take (nat (or_default (size_number rq) 10))
                         (drop (nat (or_default (size_number rq) 10 * (or_default (page_number rq) 1 - 1))) L))
                      (length (filter (\<lambda>d. fld d ''requesterEmail'' = JStr email) (requests s)))), s)))
       \<and> (verifyAdmin s email = None \<longrightarrow>
            (\<exists>L. mset L = mset (requests s) \<and>
                 sorted_wrt (\<lambda>a b. created b \<le> created a) L \<and>
                 get_admin_requests_p0 s rq =
                   (Send 200 (Page
                      (take (nat (or_default (size_number rq) 10))
                         (drop (nat (or_default (size_number rq) 10 * (or_default (page_number rq) 1 - 1))) L))
                      (length (requests s))), s)))
       \<and> (\<exists>L. mset L = mset (filter (\<lambda>d. fld d ''requesterEmail'' = JStr (trim email)) (requests s)) \<and>
                 sorted_wrt (\<lambda>a b. created b \<le> created a) L \<and>
                 get_my_requests_ix2 s rq =
                   (Send 200 (Page
                      (take (nat (or_default (size_number rq) 3))
                         (drop (nat (or_default (size_number rq) 3 * (or_default (page_number rq) 1 - 1))) L))
                      (length (filter (\<lambda>d. fld d ''requesterEmail'' = JStr (trim email)) (requests s)))), s))
       \<and> get_my_requests_ix1 s rq =
            (Send 200 (Page
               (take (nat (or_default (size_number rq) 10))
                  (drop (nat (or_default (size_number rq) 10 * (or_default (page_number rq) 1 - 1)))
                     (filter (\<lambda>d. fld d ''requesterEmail'' = JStr email) (requests s))))
               (length (filter (\<lambda>d. fld d ''requesterEmail'' = JStr email) (requests s)))), s)
       \<and> or_default None 1 = 1 \<and> or_default None 10 = 10 \<and> or_default None 3 = 3"
proof -
  let ?p = "or_default (page_number rq) 1"
  have p: "1 \<le> ?p" using or_default_ge[OF page] by simp
  have n10: "1 \<le> or_default (size_number rq) 10" using or_default_ge[OF size] by simp
  have n3: "1 \<le> or_default (size_number rq) 3" using or_default_ge[OF size] by simp
  let ?mine = "filter (\<lambda>d. fld d ''requesterEmail'' = JStr email) (requests s)"
  let ?mine' = "filter (\<lambda>d. fld d ''requesterEmail'' = JStr (trim email)) (requests s)"
  have donor: "verifyDonor s email = None \<longrightarrow>
            (\<exists>L. mset L = mset ?mine \<and> sorted_wrt (\<lambda>a b. created b \<le> created a) L \<and>
                 get_my_requests_p0 s rq =
                   (Send 200 (Page
                      (take (nat (or_default (size_number rq) 10))
                         (drop (nat (or_default (size_number rq) 10 * (?p - 1))) L))
                      (length ?mine)), s))"
  proof
    assume ok: "verifyDonor s email = None"
    have "get_my_requests_p0 s rq =
                   (Send 200 (Page
                      (take (nat (or_default (size_number rq) 10))
                         (drop (nat (or_default (size_number rq) 10 * (?p - 1))) (sort_created_desc ?mine)))
                      (length ?mine)), s)"
      using auth ok
      by (simp add: get_my_requests_p0_def guarded_def verifyFBToken_def Let_def
          skip_limit_window[OF p n10] find_docs_single countDocuments_single)
    with mset_sort_created_desc[of ?mine] sorted_sort_created_desc[of ?mine]
    show "\<exists>L. mset L = mset ?mine \<and> sorted_wrt (\<lambda>a b. created b \<le> created a) L \<and>
                 get_my_requests_p0 s rq =
                   (Send 200 (Page
                      (take (nat (or_default (size_number rq) 10))
                         (drop (nat (or_default (size_number rq) 10 * (?p - 1))) L))
                      (length ?mine)), s)"
      by blast
  qed
  have adm: "verifyAdmin s email = None \<longrightarrow>
            (\<exists>L. mset L = mset (requests s) \<and> sorted_wrt (\<lambda>a b. created b \<le> created a) L \<and>
                 get_admin_requests_p0 s rq =
                   (Send 200 (Page
                      (take (nat (or_default (size_number rq) 10))
                         (drop (nat (or_default (size_number rq) 10 * (?p - 1))) L))
                      (length (requests s))), s))"
  proof
    assume ok: "verifyAdmin s email = None"
    have "get_admin_requests_p0 s rq =
                   (Send 200 (Page
                      (take (nat (or_default (size_number rq) 10))
                         (drop (nat (or_default (size_number rq) 10 * (?p - 1))) (sort_created_desc (requests s))))
                      (length (requests s))), s)"
      using auth ok
      by (simp add: get_admin_requests_p0_def guarded_def verifyFBToken_def Let_def
          skip_limit_window[OF p n10] find_docs_all countDocuments_all)
    with mset_sort_created_desc[of "requests s"] sorted_sort_created_desc[of "requests s"]
    show "\<exists>L. mset L = mset (requests s) \<and> sorted_wrt (\<lambda>a b. created b \<le> created a) L \<and>
                 get_admin_requests_p0 s rq =
                   (Send 200 (Page
                      (take (nat (or_default (size_number rq) 10))
                         (drop (nat (or_default (size_number rq) 10 * (?p - 1))) L))
                      (length (requests s))), s)"
      by blast
  qed
  have ix2: "\<exists>L. mset L = mset ?mine' \<and> sorted_wrt (\<lambda>a b. created b \<le> created a) L \<and>
                 get_my_requests_ix2 s rq =
                   (Send 200 (Page
                      (take (nat (or_default (size_number rq) 3))
                         (drop (nat (or_default (size_number rq) 3 * (?p - 1))) L))
                      (length ?mine')), s)"
  proof -
    have "get_my_requests_ix2 s rq =
                   (Send 200 (Page
                      (take (nat (or_default (size_number rq) 3))
                         (drop (nat (or_default (size_number rq) 3 * (?p - 1))) (sort_created_desc ?mine')))
                      (length ?mine')), s)"
      using auth
      by (simp add: get_my_requests_ix2_def authenticated_def verifyFBToken_def Let_def
          skip_limit_window[OF p n3] find_docs_single countDocuments_single)
    with mset_sort_created_desc[of ?mine'] sorted_sort_created_desc[of ?mine']
    show ?thesis by blast
  qed
  have ix1: "get_my_requests_ix1 s rq =
            (Send 200 (Page
               (take (nat (or_default (size_number rq) 10))
                  (drop (nat (or_default (size_number rq) 10 * (?p - 1))) ?mine))
               (length ?mine)), s)"
    using auth
    by (simp add: get_my_requests_ix1_def authenticated_ix1_def verifyFBToken_ix1_def Let_def
        skip_limit_window[OF p n10] find_docs_single countDocuments_single)
  have dflt: "or_default None 1 = 1 \<and> or_default None 10 = 10 \<and> or_default None 3 = 3"
    by (simp add: or_default_def)
  from donor adm ix2 ix1 dflt show ?thesis by blast
qed

theorem paged_list_witness:
  "authorization 
        \<lparr>authorization = Token ''o@x'', params_id = None, query = Map.empty, page_number = Some 2,
          size_number = Some 2, body = [], clock = 50, retrieved = None\<rparr> = Token ''o@x'' \<and> page_number 
        \<lparr>authorization = Token ''o@x'', params_id = None, query = Map.empty, page_number = Some 2,
          size_number = Some 2, body = [], clock = 50, retrieved = None\<rparr> = Some 2 \<and> size_number 
        \<lparr>authorization = Token ''o@x'', params_id = None, query = Map.empty, page_number = Some 2,
          size_number = Some 2, body = [], clock = 50, retrieved = None\<rparr> = Some 2
   \<and> verifyDonor 
        \<lparr>users = [map_of [(''email'', JStr ''o@x''), (''role'', JStr ''donor''), (''status'', JStr ''active'')]],
          requests = [map_of [(''_id'', JId 1), (''requesterEmail'', JStr ''o@x''), (''createdAt'', JDate 10)],
            map_of [(''_id'', JId 2), (''requesterEmail'', JStr ''z@x''), (''createdAt'', JDate 20)],
            map_of [(''_id'', JId 3), (''requesterEmail'', JStr ''o@x''), (''createdAt'', JDate 30)],
            map_of [(''_id'', JId 4), (''requesterEmail'', JStr ''o@x''), (''createdAt'', JDate 40)]],
          payments = []\<rparr> ''o@x'' = None
   \<and> get_my_requests_p0 
        \<lparr>users = [map_of [(''email'', JStr ''o@x''), (''role'', JStr ''donor''), (''status'', JStr ''active'')]],
          requests = [map_of [(''_id'', JId 1), (''requesterEmail'', JStr ''o@x''), (''createdAt'', JDate 10)],
            map_of [(''_id'', JId 2), (''requesterEmail'', JStr ''z@x''), (''createdAt'', JDate 20)],
            map_of [(''_id'', JId 3), (''requesterEmail'', JStr ''o@x''), (''createdAt'', JDate 30)],
            map_of [(''_id'', JId 4), (''requesterEmail'', JStr ''o@x''), (''createdAt'', JDate 40)]],
          payments = []\<rparr> 
        \<lparr>authorization = Token ''o@x'', params_id = None, query = Map.empty, page_number = Some 2,
          size_number = Some 2, body = [], clock = 50, retrieved = None\<rparr> = (Send 200 (Page [map_of [(''_id'', JId 1), (''requesterEmail'', JStr ''o@x''), (''createdAt'', JDate 10)]] 3), 
        \<lparr>users = [map_of [(''email'', JStr ''o@x''), (''role'', JStr ''donor''), (''status'', JStr ''active'')]],
          requests = [map_of [(''_id'', JId 1), (''requesterEmail'', JStr ''o@x''), (''createdAt'', JDate 10)],
            map_of [(''_id'', JId 2), (''requesterEmail'', JStr ''z@x''), (''createdAt'', JDate 20)],
            map_of [(''_id'', JId 3), (''requesterEmail'', JStr ''o@x''), (''createdAt'', JDate 30)],
            map_of [(''_id'', JId 4), (''requesterEmail'', JStr ''o@x''), (''createdAt'', JDate 40)]],
          payments = []\<rparr>)"
proof -
  have a: "authorization 
        \<lparr>authorization = Token ''o@x'', params_id = None, query = Map.empty, page_number = Some 2,
          size_number = Some 2, body = [], clock = 50, retrieved = None\<rparr> = Token ''o@x''" by simp
  have p: "\<forall>v. page_number 
        \<lparr>authorization = Token ''o@x'', params_id = None, query = Map.empty, page_number = Some 2,
          size_number = Some 2, body = [], clock = 50, retrieved = None\<rparr> = Some v \<longrightarrow> 0 \<le> v" by simp
  have n: "\<forall>v. size_number 
        \<lparr>authorization = Token ''o@x'', params_id = None, query = Map.empty, page_number = Some 2,
          size_number = Some 2, body = [], clock = 50, retrieved = None\<rparr> = Some v \<longrightarrow> 0 \<le> v" by simp
  have g: "verifyDonor 
        \<lparr>users = [map_of [(''email'', JStr ''o@x''), (''role'', JStr ''donor''), (''status'', JStr ''active'')]],
          requests = [map_of [(''_id'', JId 1), (''requesterEmail'', JStr ''o@x''), (''createdAt'', JDate 10)],
            map_of [(''_id'', JId 2), (''requesterEmail'', JStr ''z@x''), (''createdAt'', JDate 20)],
            map_of [(''_id'', JId 3), (''requesterEmail'', JStr ''o@x''), (''createdAt'', JDate 30)],
            map_of [(''_id'', JId 4), (''requesterEmail'', JStr ''o@x''), (''createdAt'', JDate 40)]],
          payments = []\<rparr> ''o@x'' = None"
    by (simp add: verifyDonor_def findOne_def matches_def fld_eval fld_empty)
  from paged_list[OF a p n, where s = "
        \<lparr>users = [map_of [(''email'', JStr ''o@x''), (''role'', JStr ''donor''), (''status'', JStr ''active'')]],
          requests = [map_of [(''_id'', JId 1), (''requesterEmail'', JStr ''o@x''), (''createdAt'', JDate 10)],
            map_of [(''_id'', JId 2), (''requesterEmail'', JStr ''z@x''), (''createdAt'', JDate 20)],
            map_of [(''_id'', JId 3), (''requesterEmail'', JStr ''o@x''), (''createdAt'', JDate 30)],
            map_of [(''_id'', JId 4), (''requesterEmail'', JStr ''o@x''), (''createdAt'', JDate 40)]],
          payments = []\<rparr>"] g
  show ?thesis
    by (simp add: get_my_requests_p0_def guarded_def verifyFBToken_def or_default_def
        skip_limit_def limit_docs_def find_docs_def countDocuments_def matches_def
        sort_created_desc_def created_def fld_eval fld_empty)
qed

text \<open>
  Claim C7 as stated fails on the first index.js snapshot: the older request comes first.
\<close>

theorem paged_list_unsorted_counterexample:
  "fst (get_my_requests_ix1 
        \<lparr>users = [map_of [(''email'', JStr ''o@x''), (''role'', JStr ''donor''), (''status'', JStr ''active'')]],
          requests = [map_of [(''_id'', JId 1), (''requesterEmail'', JStr ''o@x''), (''createdAt'', JDate 10)],
            map_of [(''_id'', JId 2), (''requesterEmail'', JStr ''o@x''), (''createdAt'', JDate 20)]],
          payments = []\<rparr> 
        \<lparr>authorization = Token ''o@x'', params_id = None, query = Map.empty, page_number = None,
          size_number = None, body = [], clock = 50, retrieved = None\<rparr>) = Send 200 (Page [map_of [(''_id'', JId 1), (''requesterEmail'', JStr ''o@x''), (''createdAt'', JDate 10)], map_of [(''_id'', JId 2), (''requesterEmail'', JStr ''o@x''), (''createdAt'', JDate 20)]] 2)
   \<and> created (map_of [(''_id'', JId 1), (''requesterEmail'', JStr ''o@x''), (''createdAt'', JDate 10)]) < created (map_of [(''_id'', JId 2), (''requesterEmail'', JStr ''o@x''), (''createdAt'', JDate 20)])"
  by (simp add: get_my_requests_ix1_def authenticated_ix1_def verifyFBToken_ix1_def or_default_def
      skip_limit_def limit_docs_def find_docs_def countDocuments_def matches_def
      created_def fld_eval fld_empty)

section \<open>The public search\<close>

lemma matches_append: "matches (q @ q') d = (matches q d \<and> matches q' d)"
  by (simp add: matches_def)

lemma matches_optional_filter:
  "matches (optional_filter k x) d = (case x of None \<Rightarrow> True | Some v \<Rightarrow> v = [] \<or> fld d k = JStr v)"
  by (auto simp: optional_filter_def matches_def split: option.splits)

lemma matches_optional_filter_trim:
  "matches (optional_filter_trim k x) d =
     (case x of None \<Rightarrow> True | Some v \<Rightarrow> v = [] \<or> fld d k = JStr (trim v))"
  by (auto simp: optional_filter_trim_def matches_def split: option.splits)

text \<open>
  Claim C9, as the code has it. \<open>GET /search-requests\<close> returns the requests that agree,
  by equality, with every one of the three parameters (blood group, district, upazila)
  that is present and not empty; an absent or empty parameter imposes no constraint.
  part_000 compares all three as given. The index.js snapshots trim the blood group
  before the comparison, of every white space character \<open>String.prototype.trim\<close>
  removes, and compare district and upazila as given.
\<close>

theorem public_search:
  "get_search_requests_p0 s rq =
     (Send 200 (Documents (filter
        (\<lambda>d. (case query rq ''bloodGroup'' of None \<Rightarrow> True
                | Some v \<Rightarrow> v = [] \<or> fld d ''bloodGroup'' = JStr v) \<and>
             (case query rq ''district'' of None \<Rightarrow> True
                | Some v \<Rightarrow> v = [] \<or> fld d ''district'' = JStr v) \<and>
             (case query rq ''upazila'' of None \<Rightarrow> True
                | Some v \<Rightarrow> v = [] \<or> fld d ''upazila'' = JStr v))
        (requests s))), s)
   \<and> get_search_requests_ix1 s rq =
     (Send 200 (Documents (filter
        (\<lambda>d. (case query rq ''bloodGroup'' of None \<Rightarrow> True
                | Some v \<Rightarrow> v = [] \<or> fld d ''bloodGroup'' = JStr (trim v)) \<and>
             (case query rq ''district'' of None \<Rightarrow> True
                | Some v \<Rightarrow> v = [] \<or> fld d ''district'' = JStr v) \<and>
             (case query rq ''upazila'' of None \<Rightarrow> True
                | Some v \<Rightarrow> v = [] \<or> fld d ''upazila'' = JStr v))
        (requests s))), s)"
proof -
  have a: "matches (optional_filter ''bloodGroup'' (query rq ''bloodGroup'') @
                    optional_filter ''district'' (query rq ''district'') @
                    optional_filter ''upazila'' (query rq ''upazila'')) =
        (\<lambda>d. (case query rq ''bloodGroup'' of None \<Rightarrow> True
                | Some v \<Rightarrow> v = [] \<or> fld d ''bloodGroup'' = JStr v) \<and>
             (case query rq ''district'' of None \<Rightarrow> True
                | Some v \<Rightarrow> v = [] \<or> fld d ''district'' = JStr v) \<and>
             (case query rq ''upazila'' of None \<Rightarrow> True
                | Some v \<Rightarrow> v = [] \<or> fld d ''upazila'' = JStr v))"
    by (rule ext) (simp add: matches_append matches_optional_filter)
  have b: "matches (optional_filter_trim ''bloodGroup'' (query rq ''bloodGroup'') @
                    optional_filter ''district'' (query rq ''district'') @
                    optional_filter ''upazila'' (query rq ''upazila'')) =
        (\<lambda>d. (case query rq ''bloodGroup'' of None \<Rightarrow> True
                | Some v \<Rightarrow> v = [] \<or> fld d ''bloodGroup'' = JStr (trim v)) \<and>
             (case query rq ''district'' of None \<Rightarrow> True
                | Some v \<Rightarrow> v = [] \<or> fld d ''district'' = JStr v) \<and>
             (case query rq ''upazila'' of None \<Rightarrow> True
                | Some v \<Rightarrow> v = [] \<or> fld d ''upazila'' = JStr v))"
    by (rule ext) (simp add: matches_append matches_optional_filter matches_optional_filter_trim)
  show ?thesis
    by (simp only: get_search_requests_p0_def get_search_requests_ix1_def find_docs_def a b)
qed

text \<open>
  Claim C9 as stated fails on the district: a district with a space on either side is not
  trimmed, so it does not find the request it would find when trimmed.
\<close>

theorem public_search_untrimmed_counterexample:
  "fst (get_search_requests_p0
      \<lparr>users = [],
       requests = [map_of [(''_id'', JId 1), (''bloodGroup'', JStr ''O-''), (''district'', JStr ''Dhaka'')]],
       payments = []\<rparr>
      \<lparr>authorization = NoHeader, params_id = None, query = [''district'' \<mapsto> '' Dhaka ''],
       page_number = None, size_number = None, body = [], clock = 0, retrieved = None\<rparr>)
     = Send 200 (Documents [])
   \<and> fst (get_search_requests_ix1
      \<lparr>users = [],
       requests = [map_of [(''_id'', JId 1), (''bloodGroup'', JStr ''O-''), (''district'', JStr ''Dhaka'')]],
       payments = []\<rparr>
      \<lparr>authorization = NoHeader, params_id = None, query = [''district'' \<mapsto> '' Dhaka ''],
       page_number = None, size_number = None, body = [], clock = 0, retrieved = None\<rparr>)
     = Send 200 (Documents [])
   \<and> fld (map_of [(''_id'', JId 1), (''bloodGroup'', JStr ''O-''), (''district'', JStr ''Dhaka'')])
        ''district'' = JStr (trim '' Dhaka '')"
  by (simp add: get_search_requests_p0_def get_search_requests_ix1_def find_docs_def
      optional_filter_def optional_filter_trim_def matches_def fld_eval fld_empty
      trim_def white_space_def strip.simps)

text \<open>The blood group is trimmed in the index.js snapshots and not in part_000.\<close>

lemma public_search_blood_group_example:
  "fst (get_search_requests_ix1
      \<lparr>users = [],
       requests = [map_of [(''_id'', JId 1), (''bloodGroup'', JStr ''O-''), (''district'', JStr ''Dhaka'')]],
       payments = []\<rparr>
      \<lparr>authorization = NoHeader, params_id = None, query = [''bloodGroup'' \<mapsto> '' O- ''],
       page_number = None, size_number = None, body = [], clock = 0, retrieved = None\<rparr>)
     = Send 200 (Documents [map_of [(''_id'', JId 1), (''bloodGroup'', JStr ''O-''), (''district'', JStr ''Dhaka'')]])
   \<and> fst (get_search_requests_p0
      \<lparr>users = [],
       requests = [map_of [(''_id'', JId 1), (''bloodGroup'', JStr ''O-''), (''district'', JStr ''Dhaka'')]],
       payments = []\<rparr>
      \<lparr>authorization = NoHeader, params_id = None, query = [''bloodGroup'' \<mapsto> '' O- ''],
       page_number = None, size_number = None, body = [], clock = 0, retrieved = None\<rparr>)
     = Send 200 (Documents [])"
  by (simp add: get_search_requests_p0_def get_search_requests_ix1_def find_docs_def
      optional_filter_def optional_filter_trim_def matches_def fld_eval fld_empty
      trim_def white_space_def strip.simps)

text \<open>
  White space beyond ASCII is trimmed as well: a blood group between two no-break spaces
  (U+00A0, the parameter \<open>%C2%A0O-%C2%A0\<close>) finds the request in the index.js snapshots.
\<close>

lemma public_search_no_break_space_example:
  "trim ([CHR 0xC2, CHR 0xA0] @ ''O-'' @ [CHR 0xC2, CHR 0xA0]) = ''O-''
   \<and> fst (get_search_requests_ix1
      \<lparr>users = [],
       requests = [map_of [(''_id'', JId 1), (''bloodGroup'', JStr ''O-''), (''district'', JStr ''Dhaka'')]],
       payments = []\<rparr>
      \<lparr>authorization = NoHeader, params_id = None,
       query = [''bloodGroup'' \<mapsto> [CHR 0xC2, CHR 0xA0] @ ''O-'' @ [CHR 0xC2, CHR 0xA0]],
       page_number = None, size_number = None, body = [], clock = 0, retrieved = None\<rparr>)
     = Send 200 (Documents [map_of [(''_id'', JId 1), (''bloodGroup'', JStr ''O-''), (''district'', JStr ''Dhaka'')]])"
  by (simp add: get_search_requests_ix1_def find_docs_def
      optional_filter_def optional_filter_trim_def matches_def fld_eval fld_empty
      trim_def white_space_def strip.simps)

section \<open>Claiming a request\<close>

lemma findOne_at: "findOne q pre = None \<Longrightarrow> matches q d \<Longrightarrow> findOne q (pre @ d # post) = Some d"
  by (induction pre) (auto simp: findOne_def split: if_splits)

lemma claim_update_found:
  assumes "findOne [(''_id'', JId i)] c = Some r" and "map_of u ''_id'' = None"
  shows "\<exists>pre post. c = pre @ r # post \<and>
           updateOne [(''_id'', JId i)] u c =
             ((1, if modifies u r then 1 else 0), pre @ set_fields u r # post) \<and>
           findOne [(''_id'', JId i)] (pre @ set_fields u r # post) = Some (set_fields u r)"
proof -
  let ?q = "[(''_id'', JId i)]"
  from findOne_Some_split[OF assms(1)] obtain pre post where
    c: "c = pre @ r # post" and pre: "findOne ?q pre = None" and m: "matches ?q r" by blast
  from m assms(2) have m': "matches ?q (set_fields u r)"
    by (simp add: matches_single fld_set_fields_other)
  from updateOne_at[OF pre m, of u post] findOne_at[OF pre m', of post] c
  show ?thesis by blast
qed

text \<open>What a claim that passed its check and ran \<open>updateOne\<close> leaves behind.\<close>

lemma claim_handler_result:
  assumes look: "\<And>s. lookup s email rq =
            (case findOne [(''_id'', JId i)] (requests s) of
               None \<Rightarrow> Some e1
             | Some r \<Rightarrow> if fld r ''status'' \<noteq> JStr ''pending'' then Some e2 else None)"
      and upd: "\<And>s. update s email rq =
            (case updateOne [(''_id'', JId i)] u (requests s) of
               (r, rs) \<Rightarrow> (Send 200 (ack r), s\<lparr>requests := rs\<rparr>))"
      and u: "map_of u ''_id'' = None" and st: "map_of u ''status'' = Some (JStr ''inprogress'')"
      and e: "\<forall>pl. e1 \<noteq> Send 200 pl" "\<forall>pl. e2 \<noteq> Send 200 pl"
  shows "(\<forall>pl. fst (claim_handler lookup update s email rq) = Send 200 pl \<longrightarrow>
            pl = ack (1, 1) \<and>
            (\<exists>r. findOne [(''_id'', JId i)] (requests s) = Some r \<and> fld r ''status'' = JStr ''pending'' \<and>
                 findOne [(''_id'', JId i)] (requests (snd (claim_handler lookup update s email rq)))
                   = Some (set_fields u r)))
       \<and> ((\<forall>pl. fst (claim_handler lookup update s email rq) \<noteq> Send 200 pl) \<longrightarrow>
            snd (claim_handler lookup update s email rq) = s)"
proof (cases "findOne [(''_id'', JId i)] (requests s)")
  case None
  with look[of s] e show ?thesis by (simp add: claim_handler_def)
next
  case (Some r)
  show ?thesis
  proof (cases "fld r ''status'' = JStr ''pending''")
    case False
    with Some look[of s] e show ?thesis by (simp add: claim_handler_def)
  next
    case True
    from claim_update_found[OF Some u] obtain pre post where
      c: "requests s = pre @ r # post" and
      up: "updateOne [(''_id'', JId i)] u (requests s) =
             ((1, if modifies u r then 1 else 0), pre @ set_fields u r # post)" and
      f: "findOne [(''_id'', JId i)] (pre @ set_fields u r # post) = Some (set_fields u r)"
      by blast
    from True have "r ''status'' \<noteq> Some (JStr ''inprogress'')"
      by (auto simp: fld_def split: option.splits)
    with st have "modifies u r"
      by (auto simp: modifies_def list_ex_iff dest!: map_of_SomeD)
    with up have up': "updateOne [(''_id'', JId i)] u (requests s) = ((1, 1), pre @ set_fields u r # post)"
      by simp
    from Some True look[of s] have "lookup s email rq = None" by simp
    with upd[of s] up' have
      "claim_handler lookup update s email rq =
         (Send 200 (ack (1, 1)), s\<lparr>requests := pre @ set_fields u r # post\<rparr>)"
      by (simp add: claim_handler_def)
    with Some True f show ?thesis by simp
  qed
qed

lemma claim_p0_result:
  assumes "params_id rq = Some i"
  shows "(\<forall>pl. fst (claim_handler claim_lookup_p0 claim_update_p0 s email rq) = Send 200 pl \<longrightarrow>
            pl = UpdateResult 1 1 \<and>
            (\<exists>r. findOne [(''_id'', JId i)] (requests s) = Some r \<and> fld r ''status'' = JStr ''pending'' \<and>
                 findOne [(''_id'', JId i)]
                   (requests (snd (claim_handler claim_lookup_p0 claim_update_p0 s email rq)))
                   = Some (set_fields
                       [(''status'', JStr ''inprogress''), (''donorEmail'', JStr email),
                        (''donorName'', get (body rq) ''donorName''), (''donatedAt'', JDate (clock rq))] r)))
       \<and> ((\<forall>pl. fst (claim_handler claim_lookup_p0 claim_update_p0 s email rq) \<noteq> Send 200 pl) \<longrightarrow>
            snd (claim_handler claim_lookup_p0 claim_update_p0 s email rq) = s)"
  using claim_handler_result[where lookup = claim_lookup_p0 and update = claim_update_p0
      and email = email and rq = rq and i = i and s = s
      and ?e1.0 = "Send 400 (Message ''Not available'')" and ?e2.0 = "Send 400 (Message ''Not available'')"
      and u = "[(''status'', JStr ''inprogress''), (''donorEmail'', JStr email),
                (''donorName'', get (body rq) ''donorName''), (''donatedAt'', JDate (clock rq))]"
      and ack = "\<lambda>r. UpdateResult (fst r) (snd r)"] assms
  by (simp add: claim_lookup_p0_def claim_update_p0_def)

lemma claim_ix1_result:
  assumes "params_id rq = Some i"
  shows "(\<forall>pl. fst (claim_handler claim_lookup_ix1 claim_update_ix1 s email rq) = Send 200 pl \<longrightarrow>
            pl = Success 1 \<and>
            (\<exists>r. findOne [(''_id'', JId i)] (requests s) = Some r \<and> fld r ''status'' = JStr ''pending'' \<and>
                 findOne [(''_id'', JId i)]
                   (requests (snd (claim_handler claim_lookup_ix1 claim_update_ix1 s email rq)))
                   = Some (set_fields
                       [(''status'', JStr ''inprogress''), (''donorName'', get (body rq) ''donorName''),
                        (''donorEmail'', get (body rq) ''donorEmail''), (''donatedAt'', JDate (clock rq))] r)))
       \<and> ((\<forall>pl. fst (claim_handler claim_lookup_ix1 claim_update_ix1 s email rq) \<noteq> Send 200 pl) \<longrightarrow>
            snd (claim_handler claim_lookup_ix1 claim_update_ix1 s email rq) = s)"
using claim_handler_result[where lookup = claim_lookup_ix1 and update = claim_update_ix1
      and email = email and rq = rq and i = i and s = s
      and ?e1.0 = "Send 404 (Message ''Request not found'')" and ?e2.0 = "Send 400 (Message ''This request is already taken'')"
      and u = "[(''status'', JStr ''inprogress''), (''donorName'', get (body rq) ''donorName''),
                (''donorEmail'', get (body rq) ''donorEmail''), (''donatedAt'', JDate (clock rq))]"
      and ack = "\<lambda>r. Success (snd r)"] assms
  by (simp add: claim_lookup_ix1_def claim_update_ix1_def)

lemma claim_ix2_result:
  assumes "params_id rq = Some i"
  shows "(\<forall>pl. fst (claim_handler claim_lookup_ix2 claim_update_ix2 s email rq) = Send 200 pl \<longrightarrow>
            pl = Success 1 \<and>
            (\<exists>r. findOne [(''_id'', JId i)] (requests s) = Some r \<and> fld r ''status'' = JStr ''pending'' \<and>
                 findOne [(''_id'', JId i)]
                   (requests (snd (claim_handler claim_lookup_ix2 claim_update_ix2 s email rq)))
                   = Some (set_fields
                       [(''status'', JStr ''inprogress''), (''donorName'', get (body rq) ''donorName''),
                        (''donorEmail'', JStr (trim email)), (''donatedAt'', JDate (clock rq))] r)))
       \<and> ((\<forall>pl. fst (claim_handler claim_lookup_ix2 claim_update_ix2 s email rq) \<noteq> Send 200 pl) \<longrightarrow>
            snd (claim_handler claim_lookup_ix2 claim_update_ix2 s email rq) = s)"
using claim_handler_result[where lookup = claim_lookup_ix2 and update = claim_update_ix2
      and email = email and rq = rq and i = i and s = s
      and ?e1.0 = "Send 404 (Message ''Not found'')" and ?e2.0 = "Send 400 (Message ''Already taken'')"
      and u = "[(''status'', JStr ''inprogress''), (''donorName'', get (body rq) ''donorName''),
                (''donorEmail'', JStr (trim email)), (''donatedAt'', JDate (clock rq))]"
      and ack = "\<lambda>r. Success (snd r)"] assms
  by (simp add: claim_lookup_ix2_def claim_update_ix2_def)

lemma claimed_fields:
  assumes "\<forall>pl. F = Send 200 pl \<longrightarrow> pl = A \<and> (\<exists>r. P r \<and> Q r \<and> G = Some (set_fields u r))"
      and "map_of u ''donorEmail'' = Some v" and "map_of u ''status'' = Some w"
  shows "\<forall>pl. F = Send 200 pl \<longrightarrow> (\<exists>d. G = Some d \<and> fld d ''donorEmail'' = v \<and> fld d ''status'' = w)"
proof (intro allI impI)
  fix pl assume "F = Send 200 pl"
  with assms(1) obtain r where "G = Some (set_fields u r)" by blast
  with fld_set_fields_hit[OF assms(2), of r] fld_set_fields_hit[OF assms(3), of r]
  show "\<exists>d. G = Some d \<and> fld d ''donorEmail'' = v \<and> fld d ''status'' = w" by simp
qed

lemma claim_records_caller_p0:
  assumes "authorization rq = Token email" and "params_id rq = Some i"
      and "fst (patch_donation_requests_id_p0 s rq) = Send 200 pl"
  shows "\<exists>d. findOne [(''_id'', JId i)] (requests (snd (patch_donation_requests_id_p0 s rq))) = Some d \<and>
             fld d ''donorEmail'' = JStr email \<and> fld d ''status'' = JStr ''inprogress''"
proof -
  have p0: "patch_donation_requests_id_p0 s rq = claim_handler claim_lookup_p0 claim_update_p0 s email rq"
    using assms(1) by (simp add: patch_donation_requests_id_p0_def authenticated_def verifyFBToken_def)
  have "\<forall>pl. fst (patch_donation_requests_id_p0 s rq) = Send 200 pl \<longrightarrow>
            (\<exists>d. findOne [(''_id'', JId i)] (requests (snd (patch_donation_requests_id_p0 s rq))) = Some d \<and>
                 fld d ''donorEmail'' = JStr email \<and> fld d ''status'' = JStr ''inprogress'')"
    unfolding p0
    by (rule claimed_fields[OF conjunct1[OF claim_p0_result[OF assms(2), of s email]]]) simp_all
  with assms(3) show ?thesis by blast
qed

text \<open>
  Claim C10, as the code has it. A claim that is answered with status 200 leaves the
  request of the path \<open>inprogress\<close> with a recorded donor email: in part_000 the email of
  the caller's verified token, in the second index.js snapshot that email trimmed, and in
  the first index.js snapshot the \<open>donorEmail\<close> field of the request body.
\<close>

theorem claim_records_caller:
  assumes "authorization rq = Token email" and "params_id rq = Some i"
  shows "(\<forall>pl. fst (patch_donation_requests_id_p0 s rq) = Send 200 pl \<longrightarrow>
            (\<exists>d. findOne [(''_id'', JId i)] (requests (snd (patch_donation_requests_id_p0 s rq))) = Some d \<and>
                 fld d ''donorEmail'' = JStr email \<and> fld d ''status'' = JStr ''inprogress''))
       \<and> (\<forall>pl. fst (patch_donation_requests_id_ix2 s rq) = Send 200 pl \<longrightarrow>
            (\<exists>d. findOne [(''_id'', JId i)] (requests (snd (patch_donation_requests_id_ix2 s rq))) = Some d \<and>
                 fld d ''donorEmail'' = JStr (trim email) \<and> fld d ''status'' = JStr ''inprogress''))
       \<and> (\<forall>pl. fst (patch_donation_requests_id_ix1 s rq) = Send 200 pl \<longrightarrow>
            (\<exists>d. findOne [(''_id'', JId i)] (requests (snd (patch_donation_requests_id_ix1 s rq))) = Some d \<and>
                 fld d ''donorEmail'' = get (body rq) ''donorEmail'' \<and> fld d ''status'' = JStr ''inprogress''))"
proof -
  have p0: "patch_donation_requests_id_p0 s rq = claim_handler claim_lookup_p0 claim_update_p0 s email rq"
    using assms(1) by (simp add: patch_donation_requests_id_p0_def authenticated_def verifyFBToken_def)
  have ix2: "patch_donation_requests_id_ix2 s rq = claim_handler claim_lookup_ix2 claim_update_ix2 s email rq"
    using assms(1) by (simp add: patch_donation_requests_id_ix2_def authenticated_def verifyFBToken_def)
  have ix1: "patch_donation_requests_id_ix1 s rq = claim_handler claim_lookup_ix1 claim_update_ix1 s email rq"
    using assms(1) by (simp add: patch_donation_requests_id_ix1_def authenticated_ix1_def verifyFBToken_ix1_def)
  have a: "\<forall>pl. fst (patch_donation_requests_id_p0 s rq) = Send 200 pl \<longrightarrow>
            (\<exists>d. findOne [(''_id'', JId i)] (requests (snd (patch_donation_requests_id_p0 s rq))) = Some d \<and>
                 fld d ''donorEmail'' = JStr email \<and> fld d ''status'' = JStr ''inprogress'')"
    unfolding p0
    by (rule claimed_fields[OF conjunct1[OF claim_p0_result[OF assms(2), of s email]]]) simp_all
  have b: "\<forall>pl. fst (patch_donation_requests_id_ix2 s rq) = Send 200 pl \<longrightarrow>
            (\<exists>d. findOne [(''_id'', JId i)] (requests (snd (patch_donation_requests_id_ix2 s rq))) = Some d \<and>
                 fld d ''donorEmail'' = JStr (trim email) \<and> fld d ''status'' = JStr ''inprogress'')"
    unfolding ix2
    by (rule claimed_fields[OF conjunct1[OF claim_ix2_result[OF assms(2), of s email]]]) simp_all
  have c: "\<forall>pl. fst (patch_donation_requests_id_ix1 s rq) = Send 200 pl \<longrightarrow>
            (\<exists>d. findOne [(''_id'', JId i)] (requests (snd (patch_donation_requests_id_ix1 s rq))) = Some d \<and>
                 fld d ''donorEmail'' = get (body rq) ''donorEmail'' \<and> fld d ''status'' = JStr ''inprogress'')"
    unfolding ix1
    by (rule claimed_fields[OF conjunct1[OF claim_ix1_result[OF assms(2), of s email]]])
       (simp_all add: get_def)
  from a b c show ?thesis by blast
qed

theorem claim_records_caller_witness:
  "authorization 
        \<lparr>authorization = Token ''x@x'', params_id = Some 1, query = Map.empty, page_number = None,
          size_number = None, body = [(''donorName'', JStr ''X''), (''donorEmail'', JStr ''v@x'')],
          clock = 8, retrieved = None\<rparr> = Token ''x@x'' \<and> params_id 
        \<lparr>authorization = Token ''x@x'', params_id = Some 1, query = Map.empty, page_number = None,
          size_number = None, body = [(''donorName'', JStr ''X''), (''donorEmail'', JStr ''v@x'')],
          clock = 8, retrieved = None\<rparr> = Some 1
   \<and> fst (patch_donation_requests_id_p0 
        \<lparr>users = [],
          requests = [map_of [(''_id'', JId 1), (''requesterEmail'', JStr ''o@x''), (''status'', JStr ''pending'')]],
          payments = []\<rparr> 
        \<lparr>authorization = Token ''x@x'', params_id = Some 1, query = Map.empty, page_number = None,
          size_number = None, body = [(''donorName'', JStr ''X''), (''donorEmail'', JStr ''v@x'')],
          clock = 8, retrieved = None\<rparr>) = Send 200 (UpdateResult 1 1)
   \<and> map (\<lambda>d. fld d ''donorEmail'') (requests (snd (patch_donation_requests_id_p0 
        \<lparr>users = [],
          requests = [map_of [(''_id'', JId 1), (''requesterEmail'', JStr ''o@x''), (''status'', JStr ''pending'')]],
          payments = []\<rparr> 
        \<lparr>authorization = Token ''x@x'', params_id = Some 1, query = Map.empty, page_number = None,
          size_number = None, body = [(''donorName'', JStr ''X''), (''donorEmail'', JStr ''v@x'')],
          clock = 8, retrieved = None\<rparr>))) = [JStr ''x@x'']"
proof -
  have a: "authorization 
        \<lparr>authorization = Token ''x@x'', params_id = Some 1, query = Map.empty, page_number = None,
          size_number = None, body = [(''donorName'', JStr ''X''), (''donorEmail'', JStr ''v@x'')],
          clock = 8, retrieved = None\<rparr> = Token ''x@x''" and b: "params_id 
        \<lparr>authorization = Token ''x@x'', params_id = Some 1, query = Map.empty, page_number = None,
          size_number = None, body = [(''donorName'', JStr ''X''), (''donorEmail'', JStr ''v@x'')],
          clock = 8, retrieved = None\<rparr> = Some 1" by simp_all
  from claim_records_caller[OF a b, where s = "
        \<lparr>users = [],
          requests = [map_of [(''_id'', JId 1), (''requesterEmail'', JStr ''o@x''), (''status'', JStr ''pending'')]],
          payments = []\<rparr>"] show ?thesis
    by (simp add: patch_donation_requests_id_p0_def patch_donation_requests_id_ix1_def authenticated_def authenticated_ix1_def
      verifyFBToken_def verifyFBToken_ix1_def claim_handler_def claim_lookup_p0_def claim_update_p0_def
      claim_lookup_ix1_def claim_update_ix1_def claim_step_def findOne_def matches_def modifies_def
      set_fields_def get_def fld_eval fld_empty)
qed

text \<open>
  Claim C10 as stated fails on the first index.js snapshot: caller x registers v as donor.
\<close>

theorem claim_records_body_email_counterexample:
  "authorization 
        \<lparr>authorization = Token ''x@x'', params_id = Some 1, query = Map.empty, page_number = None,
          size_number = None, body = [(''donorName'', JStr ''X''), (''donorEmail'', JStr ''v@x'')],
          clock = 8, retrieved = None\<rparr> = Token ''x@x''
   \<and> fst (patch_donation_requests_id_ix1 
        \<lparr>users = [],
          requests = [map_of [(''_id'', JId 1), (''requesterEmail'', JStr ''o@x''), (''status'', JStr ''pending'')]],
          payments = []\<rparr> 
        \<lparr>authorization = Token ''x@x'', params_id = Some 1, query = Map.empty, page_number = None,
          size_number = None, body = [(''donorName'', JStr ''X''), (''donorEmail'', JStr ''v@x'')],
          clock = 8, retrieved = None\<rparr>) = Send 200 (Success 1)
   \<and> map (\<lambda>d. fld d ''donorEmail'') (requests (snd (patch_donation_requests_id_ix1 
        \<lparr>users = [],
          requests = [map_of [(''_id'', JId 1), (''requesterEmail'', JStr ''o@x''), (''status'', JStr ''pending'')]],
          payments = []\<rparr> 
        \<lparr>authorization = Token ''x@x'', params_id = Some 1, query = Map.empty, page_number = None,
          size_number = None, body = [(''donorName'', JStr ''X''), (''donorEmail'', JStr ''v@x'')],
          clock = 8, retrieved = None\<rparr>))) = [JStr ''v@x'']"
  by (simp add: patch_donation_requests_id_p0_def patch_donation_requests_id_ix1_def authenticated_def authenticated_ix1_def
      verifyFBToken_def verifyFBToken_ix1_def claim_handler_def claim_lookup_p0_def claim_update_p0_def
      claim_lookup_ix1_def claim_update_ix1_def claim_step_def findOne_def matches_def modifies_def
      set_fields_def get_def fld_eval fld_empty)

text \<open>Run alone, the steps of a claim are the handler.\<close>

lemma interleave_alone:
  "interleave (claim_step verifyFBToken lookup update) [0, 0] s [(rq, Start)] =
     (snd (authenticated (claim_handler lookup update) s rq),
      [(rq, Finished (fst (authenticated (claim_handler lookup update) s rq)))])"
  by (auto simp: claim_step_def authenticated_def claim_handler_def split: sum.splits option.splits prod.splits)

text \<open>One claim after another: the second is refused and changes nothing.\<close>

lemma claim_taken_rejected_p0:
  assumes "authorization rq = Token e" and "params_id rq = Some i"
      and "findOne [(''_id'', JId i)] (requests s) = Some d" and "fld d ''status'' \<noteq> JStr ''pending''"
  shows "patch_donation_requests_id_p0 s rq = (Send 400 (Message ''Not available''), s)"
  using assms
  by (simp add: patch_donation_requests_id_p0_def authenticated_def verifyFBToken_def
      claim_handler_def claim_lookup_p0_def)

lemma claim_again_rejected_p0:
  assumes "authorization rq = Token e" and "params_id rq = Some i"
      and "authorization rq' = Token e'" and "params_id rq' = Some i"
      and "fst (patch_donation_requests_id_p0 s rq) = Send 200 pl"
  shows "patch_donation_requests_id_p0 (snd (patch_donation_requests_id_p0 s rq)) rq' =
           (Send 400 (Message ''Not available''), snd (patch_donation_requests_id_p0 s rq))"
proof -
  from claim_records_caller_p0[OF assms(1,2,5)] obtain d where
    f: "findOne [(''_id'', JId i)] (requests (snd (patch_donation_requests_id_p0 s rq))) = Some d"
    and "fld d ''status'' = JStr ''inprogress''" by blast
  then have "fld d ''status'' \<noteq> JStr ''pending''" by simp
  from claim_taken_rejected_p0[OF assms(3,4) f this] show ?thesis .
qed

text \<open>
  Claim C1 fails on a schedule the server allows. The request with id 1 is \<open>pending\<close>;
  callers x and y both send \<open>PATCH /donation-requests/1\<close>. Both handlers run their
  \<open>findOne\<close> and check (steps 0 and 1) before either sends its \<open>updateOne\<close> (steps 0 and
  1 again). \<open>updateOne\<close> filters on the id alone, so both updates match: both callers get
  the success reply with one document modified, x is recorded as donor after the third
  step and y after the fourth. The first index.js snapshot does the same with the emails
  of the two bodies.
\<close>

theorem claim_race:
  "map snd (snd (interleave (claim_step verifyFBToken claim_lookup_p0 claim_update_p0) [0, 1, 0, 1] 
        \<lparr>users = [],
          requests = [map_of [(''_id'', JId 1), (''requesterEmail'', JStr ''o@x''), (''status'', JStr ''pending'')]],
          payments = []\<rparr>
      [(
        \<lparr>authorization = Token ''x@x'', params_id = Some 1, query = Map.empty, page_number = None,
          size_number = None, body = [(''donorName'', JStr ''X''), (''donorEmail'', JStr ''v@x'')],
          clock = 8, retrieved = None\<rparr>, Start), (
        \<lparr>authorization = Token ''y@x'', params_id = Some 1, query = Map.empty, page_number = None,
          size_number = None, body = [(''donorName'', JStr ''Y''), (''donorEmail'', JStr ''y@x'')],
          clock = 9, retrieved = None\<rparr>, Start)]))
     = [Finished (Send 200 (UpdateResult 1 1)), Finished (Send 200 (UpdateResult 1 1))]
   \<and> map (\<lambda>d. fld d ''donorEmail'')
        (requests (fst (interleave (claim_step verifyFBToken claim_lookup_p0 claim_update_p0) [0, 1, 0] 
        \<lparr>users = [],
          requests = [map_of [(''_id'', JId 1), (''requesterEmail'', JStr ''o@x''), (''status'', JStr ''pending'')]],
          payments = []\<rparr>
           [(
        \<lparr>authorization = Token ''x@x'', params_id = Some 1, query = Map.empty, page_number = None,
          size_number = None, body = [(''donorName'', JStr ''X''), (''donorEmail'', JStr ''v@x'')],
          clock = 8, retrieved = None\<rparr>, Start), (
        \<lparr>authorization = Token ''y@x'', params_id = Some 1, query = Map.empty, page_number = None,
          size_number = None, body = [(''donorName'', JStr ''Y''), (''donorEmail'', JStr ''y@x'')],
          clock = 9, retrieved = None\<rparr>, Start)])))
     = [JStr ''x@x'']
   \<and> map (\<lambda>d. fld d ''donorEmail'')
        (requests (fst (interleave (claim_step verifyFBToken claim_lookup_p0 claim_update_p0) [0, 1, 0, 1] 
        \<lparr>users = [],
          requests = [map_of [(''_id'', JId 1), (''requesterEmail'', JStr ''o@x''), (''status'', JStr ''pending'')]],
          payments = []\<rparr>
           [(
        \<lparr>authorization = Token ''x@x'', params_id = Some 1, query = Map.empty, page_number = None,
          size_number = None, body = [(''donorName'', JStr ''X''), (''donorEmail'', JStr ''v@x'')],
          clock = 8, retrieved = None\<rparr>, Start), (
        \<lparr>authorization = Token ''y@x'', params_id = Some 1, query = Map.empty, page_number = None,
          size_number = None, body = [(''donorName'', JStr ''Y''), (''donorEmail'', JStr ''y@x'')],
          clock = 9, retrieved = None\<rparr>, Start)])))
     = [JStr ''y@x'']
   \<and> map snd (snd (interleave (claim_step verifyFBToken_ix1 claim_lookup_ix1 claim_update_ix1) [0, 1, 0, 1] 
        \<lparr>users = [],
          requests = [map_of [(''_id'', JId 1), (''requesterEmail'', JStr ''o@x''), (''status'', JStr ''pending'')]],
          payments = []\<rparr>
      [(
        \<lparr>authorization = Token ''x@x'', params_id = Some 1, query = Map.empty, page_number = None,
          size_number = None, body = [(''donorName'', JStr ''X''), (''donorEmail'', JStr ''v@x'')],
          clock = 8, retrieved = None\<rparr>, Start), (
        \<lparr>authorization = Token ''y@x'', params_id = Some 1, query = Map.empty, page_number = None,
          size_number = None, body = [(''donorName'', JStr ''Y''), (''donorEmail'', JStr ''y@x'')],
          clock = 9, retrieved = None\<rparr>, Start)]))
     = [Finished (Send 200 (Success 1)), Finished (Send 200 (Success 1))]
   \<and> map (\<lambda>d. fld d ''donorEmail'')
        (requests (fst (interleave (claim_step verifyFBToken_ix1 claim_lookup_ix1 claim_update_ix1) [0, 1, 0] 
        \<lparr>users = [],
          requests = [map_of [(''_id'', JId 1), (''requesterEmail'', JStr ''o@x''), (''status'', JStr ''pending'')]],
          payments = []\<rparr>
           [(
        \<lparr>authorization = Token ''x@x'', params_id = Some 1, query = Map.empty, page_number = None,
          size_number = None, body = [(''donorName'', JStr ''X''), (''donorEmail'', JStr ''v@x'')],
          clock = 8, retrieved = None\<rparr>, Start), (
        \<lparr>authorization = Token ''y@x'', params_id = Some 1, query = Map.empty, page_number = None,
          size_number = None, body = [(''donorName'', JStr ''Y''), (''donorEmail'', JStr ''y@x'')],
          clock = 9, retrieved = None\<rparr>, Start)])))
     = [JStr ''v@x'']
   \<and> map (\<lambda>d. fld d ''donorEmail'')
        (requests (fst (interleave (claim_step verifyFBToken_ix1 claim_lookup_ix1 claim_update_ix1) [0, 1, 0, 1] 
        \<lparr>users = [],
          requests = [map_of [(''_id'', JId 1), (''requesterEmail'', JStr ''o@x''), (''status'', JStr ''pending'')]],
          payments = []\<rparr>
           [(
        \<lparr>authorization = Token ''x@x'', params_id = Some 1, query = Map.empty, page_number = None,
          size_number = None, body = [(''donorName'', JStr ''X''), (''donorEmail'', JStr ''v@x'')],
          clock = 8, retrieved = None\<rparr>, Start), (
        \<lparr>authorization = Token ''y@x'', params_id = Some 1, query = Map.empty, page_number = None,
          size_number = None, body = [(''donorName'', JStr ''Y''), (''donorEmail'', JStr ''y@x'')],
          clock = 9, retrieved = None\<rparr>, Start)])))
     = [JStr ''y@x'']"
  by (simp add: patch_donation_requests_id_p0_def patch_donation_requests_id_ix1_def authenticated_def authenticated_ix1_def
      verifyFBToken_def verifyFBToken_ix1_def claim_handler_def claim_lookup_p0_def claim_update_p0_def
      claim_lookup_ix1_def claim_update_ix1_def claim_step_def findOne_def matches_def modifies_def
      set_fields_def get_def fld_eval fld_empty)

section \<open>The profile edit\<close>

text \<open>The part of the profile edit that holds: no stored email changes.\<close>

lemma patch_profile_keeps_email:
  "map (\<lambda>d. fld d ''email'') (users (snd (patch_profile_p0 s rq))) = map (\<lambda>d. fld d ''email'') (users s)
   \<and> map (\<lambda>d. fld d ''email'') (users (snd (patch_profile_ix1 s rq))) = map (\<lambda>d. fld d ''email'') (users s)"
  using profile_update_email[of s _ rq]
  by (auto simp: patch_profile_p0_def patch_profile_ix1_def authenticated_def authenticated_ix1_def
      split: sum.splits)

text \<open>A role or a status in the body is written to the caller's record.\<close>

lemma profile_update_writes:
  assumes "findOne [(''email'', JStr email)] (users s) = Some u"
      and "k \<noteq> ''_id''" and "k \<noteq> ''email''" and "map_of (body rq) k = Some v"
  shows "\<exists>u'. findOne [(''email'', JStr email)] (users (snd (profile_update s email rq))) = Some u' \<and>
              fld u' k = v"
proof -
  let ?q = "[(''email'', JStr email)]"
  let ?b = "filter (\<lambda>(k, v). k \<noteq> ''_id'' \<and> k \<noteq> ''email'') (body rq)"
  from findOne_Some_split[OF assms(1)] obtain pre post where
    c: "users s = pre @ u # post" and pre: "findOne ?q pre = None" and m: "matches ?q u" by blast
  have e: "map_of ?b ''email'' = None"
    using map_of_filter_keys[of "\<lambda>k. k \<noteq> ''_id'' \<and> k \<noteq> ''email''" "body rq" "''email''"] by simp
  have kv: "map_of ?b k = Some v"
    using map_of_filter_keys[of "\<lambda>k. k \<noteq> ''_id'' \<and> k \<noteq> ''email''" "body rq" k] assms(2-4) by simp
  from m e have m': "matches ?q (set_fields ?b u)" by (simp add: matches_single fld_set_fields_other)
  from updateOne_at[OF pre m, of ?b post] c
  have "users (snd (profile_update s email rq)) = pre @ set_fields ?b u # post"
    by (simp add: profile_update_def)
  with findOne_at[OF pre m', of post] fld_set_fields_hit[OF kv, of u] show ?thesis by simp
qed

text \<open>
  Claim C6 fails on the role and the status. The caller is a blocked donor; the body of
  \<open>PATCH /profile\<close> carries a role, a status and an email. The handler deletes \<open>_id\<close> and
  \<open>email\<close> from the body and sets the rest: afterwards the stored email is the one
  before, and the caller is an active admin who passes the admin guard.
\<close>

theorem profile_edit_escalates:
  "map (\<lambda>d. (fld d ''email'', fld d ''role'', fld d ''status''))
     (users (snd (patch_profile_p0
        \<lparr>users = [map_of [(''email'', JStr ''d@x''), (''role'', JStr ''donor''), (''status'', JStr ''blocked'')]],
         requests = [], payments = []\<rparr>
        \<lparr>authorization = Token ''d@x'', params_id = None, query = Map.empty, page_number = None,
         size_number = None,
         body = [(''email'', JStr ''e@x''), (''role'', JStr ''admin''), (''status'', JStr ''active'')],
         clock = 2, retrieved = None\<rparr>)))
     = [(JStr ''d@x'', JStr ''admin'', JStr ''active'')]
   \<and> map (\<lambda>d. (fld d ''email'', fld d ''role'', fld d ''status''))
     (users (snd (patch_profile_ix1
        \<lparr>users = [map_of [(''email'', JStr ''d@x''), (''role'', JStr ''donor''), (''status'', JStr ''blocked'')]],
         requests = [], payments = []\<rparr>
        \<lparr>authorization = Token ''d@x'', params_id = None, query = Map.empty, page_number = None,
         size_number = None,
         body = [(''email'', JStr ''e@x''), (''role'', JStr ''admin''), (''status'', JStr ''active'')],
         clock = 2, retrieved = None\<rparr>)))
     = [(JStr ''d@x'', JStr ''admin'', JStr ''active'')]
   \<and> verifyAdmin
        \<lparr>users = [map_of [(''email'', JStr ''d@x''), (''role'', JStr ''donor''), (''status'', JStr ''blocked'')]],
         requests = [], payments = []\<rparr> ''d@x'' = Some (Send 403 (Message ''Forbidden''))
   \<and> verifyAdmin
        (snd (patch_profile_p0
        \<lparr>users = [map_of [(''email'', JStr ''d@x''), (''role'', JStr ''donor''), (''status'', JStr ''blocked'')]],
         requests = [], payments = []\<rparr>
        \<lparr>authorization = Token ''d@x'', params_id = None, query = Map.empty, page_number = None,
         size_number = None,
         body = [(''email'', JStr ''e@x''), (''role'', JStr ''admin''), (''status'', JStr ''active'')],
         clock = 2, retrieved = None\<rparr>)) ''d@x'' = None"
  by (simp add: patch_profile_p0_def patch_profile_ix1_def authenticated_def authenticated_ix1_def
      verifyFBToken_def verifyFBToken_ix1_def profile_update_def verifyAdmin_def findOne_def
      matches_def modifies_def set_fields_def fld_eval fld_empty)

end
